theory Spec2Isabelle
  imports Main "HOL-Library.Word" "HOL-Library.Mapping"
begin

section \<open>TerrainResources: the texture image unit allocator of TextureCompositor.cpp\<close>

subsection \<open>Data model\<close>

text \<open>
  The source works with two 32-bit machine integers: \<^verbatim>\<open>int\<close> (the elements of
  \<^verbatim>\<open>std::set<int>\<close>, the out-parameter, the field \<^verbatim>\<open>_unit\<close>) and \<^verbatim>\<open>unsigned\<close>
  (\<^verbatim>\<open>maxUnits\<close> and the loop index \<^verbatim>\<open>i\<close>). Both are 32-bit words here. The implicit
  conversions \<^verbatim>\<open>taken.find(i)\<close>, \<^verbatim>\<open>insert(i)\<close> and \<^verbatim>\<open>out_unit = i\<close> keep the
  bits, so they are the identity on words. The order \<open><\<close> on words is the unsigned one, the
  comparison \<^verbatim>\<open>i < maxUnits\<close> of the loop; \<open>sint\<close> reads a word as the \<^verbatim>\<open>int\<close> the
  caller sees, \<open>unat\<close> as the index the loop counts.
\<close>

type_synonym c_int = "32 word"
type_synonym c_unsigned = "32 word"

text \<open>
  \<^verbatim>\<open>ReservedUnits\<close> is \<^verbatim>\<open>std::set<int>\<close>. \<^verbatim>\<open>PerLayerReservedUnits\<close> is a dictionary
  from \<^verbatim>\<open>const Layer*\<close> to \<^verbatim>\<open>ReservedUnits\<close>; a pointer is \<open>None\<close> when it is null
  (\<^verbatim>\<open>0L\<close>) and \<open>Some l\<close> for the layer object \<open>l\<close>.
\<close>

type_synonym ReservedUnits = "c_int set"
type_synonym 'l PerLayerReservedUnits = "('l option, ReservedUnits) mapping"

record 'l TerrainResources =
  globallyReservedUnits :: ReservedUnits
  perLayerReservedUnits :: "'l PerLayerReservedUnits"

text \<open>The constructor leaves both containers empty.\<close>

definition TerrainResources_init :: "'l TerrainResources" where
  "TerrainResources_init =
     \<lparr>globallyReservedUnits = {}, perLayerReservedUnits = Mapping.empty\<rparr>"

text \<open>
  \<^verbatim>\<open>TextureImageUnitReservation\<close>: the unit, the layer pointer and the observer pointer
  \<^verbatim>\<open>_res\<close> to the allocator (\<open>'a\<close> is the identity of an allocator object).
\<close>

record ('l, 'a) TextureImageUnitReservation =
  r_unit :: c_int
  r_layer :: "'l option"
  r_res :: "'a option"

definition TextureImageUnitReservation_init :: "('l, 'a) TextureImageUnitReservation" where
  "TextureImageUnitReservation_init = \<lparr>r_unit = - 1, r_layer = None, r_res = None\<rparr>"

text \<open>
  What the functions send to the notification streams: the three \<^verbatim>\<open>OE_INFO\<close> lines
  (with the unit, the layer whose name is printed, and the requestor) and the
  \<^verbatim>\<open>OE_WARN\<close> line.
\<close>

datatype 'l log_msg =
    ReservedFor c_int string
  | ReservedByLayer c_int 'l string
  | ReservedOnLayer c_int 'l string
  | IllegalUsage

datatype severity = INFO | WARN

fun severity_of :: "'l log_msg \<Rightarrow> severity" where
  "severity_of IllegalUsage = WARN"
| "severity_of _ = INFO"

subsection \<open>The scan for the first unused unit\<close>

text \<open>
  The loop \<^verbatim>\<open>for (unsigned i = 0; i < maxUnits; ++i) if (taken.find(i) == taken.end())\<close>
  that all four reserve functions share, started at index \<open>i\<close>; the result is the index
  at which the body is entered, \<open>None\<close> when the loop runs to its end.
\<close>

function first_unused :: "c_int set \<Rightarrow> c_unsigned \<Rightarrow> c_unsigned \<Rightarrow> c_unsigned option" where
  "first_unused taken maxUnits i =
     (if i < maxUnits
      then (if i \<notin> taken then Some i else first_unused taken maxUnits (i + 1))
      else None)"
  by pat_completeness auto

termination first_unused
proof (relation "measure (\<lambda>(taken, maxUnits, i). unat maxUnits - unat i)")
  show "wf (measure (\<lambda>(taken, maxUnits, i). unat maxUnits - unat i))" by simp
next
  fix taken :: "c_int set" and maxUnits i :: c_unsigned
  assume lt: "i < maxUnits"
  have "1 + i \<noteq> 0"
  proof
    assume "1 + i = 0"
    then have "i = - 1" by (simp add: add_eq_0_iff)
    with lt show False by simp
  qed
  then have "unat (i + 1) = Suc (unat i)" by (simp add: unatSuc add.commute)
  moreover from lt have "unat i < unat maxUnits" by (simp add: word_less_nat_alt)
  ultimately show "((taken, maxUnits, i + 1), (taken, maxUnits, i))
          \<in> measure (\<lambda>(taken, maxUnits, i). unat maxUnits - unat i)"
    by simp
qed

subsection \<open>Reserving\<close>

text \<open>
  \<^verbatim>\<open>maxUnits\<close> is what \<^verbatim>\<open>getCapabilities().getMaxGPUTextureUnits()\<close> returns at the
  call; the registry is not part of the file, so the value is a parameter. \<^verbatim>\<open>requestor\<close>
  is a \<^verbatim>\<open>const char*\<close>, \<open>None\<close> when null. Every reserve function returns its
  \<^verbatim>\<open>bool\<close>, the out-parameter as the function leaves it, the allocator afterwards and the
  lines it logged. The mutex makes each call atomic; a call is one function application.
\<close>

text \<open>
  The set \<^verbatim>\<open>taken\<close> of the two global forms: \<^verbatim>\<open>_globallyReservedUnits\<close> and the
  units of every entry of \<^verbatim>\<open>_perLayerReservedUnits\<close>.
\<close>

definition taken_global :: "'l TerrainResources \<Rightarrow> c_int set" where
  "taken_global s =
     globallyReservedUnits s \<union>
     (\<Union>k \<in> Mapping.keys (perLayerReservedUnits s).
        Mapping.lookup_default {} (perLayerReservedUnits s) k)"

text \<open>
  The units reserved under one layer, the set that \<^verbatim>\<open>_perLayerReservedUnits[layer]\<close>
  reads: the set of the layer's entry, and no unit when the layer has no entry.
\<close>

definition perLayerUnits :: "'l TerrainResources \<Rightarrow> 'l option \<Rightarrow> c_int set" where
  "perLayerUnits s layer = Mapping.lookup_default {} (perLayerReservedUnits s) layer"

text \<open>\<^verbatim>\<open>bool reserveTextureImageUnit(int& out_unit, const char* requestor)\<close>\<close>

definition reserveTextureImageUnit ::
  "c_unsigned \<Rightarrow> string option \<Rightarrow> 'l TerrainResources
     \<Rightarrow> bool \<times> c_int \<times> 'l TerrainResources \<times> 'l log_msg list" where
  "reserveTextureImageUnit maxUnits requestor s =
     (case first_unused (taken_global s) maxUnits 0 of
        Some i \<Rightarrow>
          (True, i,
           s\<lparr>globallyReservedUnits := insert i (globallyReservedUnits s)\<rparr>,
           (case requestor of None \<Rightarrow> [] | Some r \<Rightarrow> [ReservedFor i r]))
      | None \<Rightarrow> (False, - 1, s, []))"

text \<open>
  \<^verbatim>\<open>bool reserveTextureImageUnit(int& out_unit, const Layer* layer, const char* requestor)\<close>.
  \<^verbatim>\<open>_perLayerReservedUnits[layer]\<close> inserts an empty set when the layer has no entry
  (\<open>Mapping.default\<close>), before the scan starts.
\<close>

definition reserveTextureImageUnit_layer ::
  "c_unsigned \<Rightarrow> 'l option \<Rightarrow> string option \<Rightarrow> 'l TerrainResources
     \<Rightarrow> bool \<times> c_int \<times> 'l TerrainResources \<times> 'l log_msg list" where
  "reserveTextureImageUnit_layer maxUnits layer requestor s =
     (case layer of
        None \<Rightarrow> reserveTextureImageUnit maxUnits requestor s
      | Some l \<Rightarrow>
          (let P = Mapping.default (Some l) {} (perLayerReservedUnits s);
               layerUnits = Mapping.lookup_default {} P (Some l)
           in (case first_unused (globallyReservedUnits s \<union> layerUnits) maxUnits 0 of
                 Some i \<Rightarrow>
                   (True, i,
                    s\<lparr>perLayerReservedUnits := Mapping.update (Some l) (insert i layerUnits) P\<rparr>,
                    (case requestor of None \<Rightarrow> [] | Some r \<Rightarrow> [ReservedByLayer i l r]))
               | None \<Rightarrow> (False, - 1, s\<lparr>perLayerReservedUnits := P\<rparr>, []))))"

text \<open>
  \<^verbatim>\<open>bool reserveTextureImageUnit(TextureImageUnitReservation& reservation, const char* requestor)\<close>;
  \<open>this\<close> is the allocator the function is called on.
\<close>

definition reserveTextureImageUnit_res ::
  "'a \<Rightarrow> c_unsigned \<Rightarrow> ('l, 'a) TextureImageUnitReservation \<Rightarrow> string option
     \<Rightarrow> 'l TerrainResources
     \<Rightarrow> bool \<times> ('l, 'a) TextureImageUnitReservation \<times> 'l TerrainResources \<times> 'l log_msg list" where
  "reserveTextureImageUnit_res this maxUnits reservation requestor s =
     (case first_unused (taken_global s) maxUnits 0 of
        Some i \<Rightarrow>
          (True, reservation\<lparr>r_unit := i, r_layer := None, r_res := Some this\<rparr>,
           s\<lparr>globallyReservedUnits := insert i (globallyReservedUnits s)\<rparr>,
           (case requestor of None \<Rightarrow> [] | Some r \<Rightarrow> [ReservedFor i r]))
      | None \<Rightarrow> (False, reservation\<lparr>r_unit := - 1\<rparr>, s, []))"

text \<open>
  \<^verbatim>\<open>bool reserveTextureImageUnitForLayer(TextureImageUnitReservation& reservation,
  const Layer* layer, const char* requestor)\<close>. The null check returns before
  \<^verbatim>\<open>reservation._unit = -1\<close>.
\<close>

definition reserveTextureImageUnitForLayer ::
  "'a \<Rightarrow> c_unsigned \<Rightarrow> ('l, 'a) TextureImageUnitReservation \<Rightarrow> 'l option \<Rightarrow> string option
     \<Rightarrow> 'l TerrainResources
     \<Rightarrow> bool \<times> ('l, 'a) TextureImageUnitReservation \<times> 'l TerrainResources \<times> 'l log_msg list" where
  "reserveTextureImageUnitForLayer this maxUnits reservation layer requestor s =
     (case layer of
        None \<Rightarrow> (False, reservation, s, [IllegalUsage])
      | Some l \<Rightarrow>
          (let P = Mapping.default (Some l) {} (perLayerReservedUnits s);
               layerReservedUnits = Mapping.lookup_default {} P (Some l)
           in (case first_unused (globallyReservedUnits s \<union> layerReservedUnits) maxUnits 0 of
                 Some i \<Rightarrow>
                   (True, reservation\<lparr>r_unit := i, r_layer := Some l, r_res := Some this\<rparr>,
                    s\<lparr>perLayerReservedUnits :=
                        Mapping.update (Some l) (insert i layerReservedUnits) P\<rparr>,
                    (case requestor of None \<Rightarrow> [] | Some r \<Rightarrow> [ReservedOnLayer i l r]))
               | None \<Rightarrow>
                   (False, reservation\<lparr>r_unit := - 1\<rparr>, s\<lparr>perLayerReservedUnits := P\<rparr>, []))))"

subsection \<open>Releasing and marking off limits\<close>

text \<open>\<^verbatim>\<open>void releaseTextureImageUnit(int unit)\<close>\<close>

definition releaseTextureImageUnit :: "c_int \<Rightarrow> 'l TerrainResources \<Rightarrow> 'l TerrainResources" where
  "releaseTextureImageUnit unit s =
     s\<lparr>globallyReservedUnits := globallyReservedUnits s - {unit}\<rparr>"

text \<open>
  \<^verbatim>\<open>void releaseTextureImageUnit(int unit, const Layer* layer)\<close>. After the global release
  for a null layer the function does not return: it goes on to look the null pointer up in
  \<^verbatim>\<open>_perLayerReservedUnits\<close> like any other key.
\<close>

definition releaseTextureImageUnit_layer ::
  "c_int \<Rightarrow> 'l option \<Rightarrow> 'l TerrainResources \<Rightarrow> 'l TerrainResources" where
  "releaseTextureImageUnit_layer unit layer s =
     (let s1 = (if layer = None then releaseTextureImageUnit unit s else s)
      in (case Mapping.lookup (perLayerReservedUnits s1) layer of
            None \<Rightarrow> s1
          | Some units \<Rightarrow>
              (if units - {unit} = {}
               then s1\<lparr>perLayerReservedUnits := Mapping.delete layer (perLayerReservedUnits s1)\<rparr>
               else s1\<lparr>perLayerReservedUnits :=
                        Mapping.update layer (units - {unit}) (perLayerReservedUnits s1)\<rparr>)))"

text \<open>\<^verbatim>\<open>bool setTextureImageUnitOffLimits(int unit)\<close>\<close>

definition setTextureImageUnitOffLimits ::
  "c_int \<Rightarrow> 'l TerrainResources \<Rightarrow> bool \<times> 'l TerrainResources" where
  "setTextureImageUnitOffLimits unit s =
     (if unit \<in> globallyReservedUnits s then (False, s)
      else if \<exists>k \<in> Mapping.keys (perLayerReservedUnits s).
                unit \<in> Mapping.lookup_default {} (perLayerReservedUnits s) k
      then (False, s)
      else (True, s\<lparr>globallyReservedUnits := insert unit (globallyReservedUnits s)\<rparr>))"

text \<open>
  \<^verbatim>\<open>~TextureImageUnitReservation()\<close>, seen from the allocator \<open>this\<close>:
  \<^verbatim>\<open>_unit >= 0\<close> is the signed comparison, and \<^verbatim>\<open>_res.lock(res)\<close> gives this allocator
  when \<^verbatim>\<open>_res\<close> observes it. A reservation that observes nothing, or another allocator,
  leaves this one as it is.
\<close>

definition TextureImageUnitReservation_dtor ::
  "'a \<Rightarrow> ('l, 'a) TextureImageUnitReservation \<Rightarrow> 'l TerrainResources \<Rightarrow> 'l TerrainResources" where
  "TextureImageUnitReservation_dtor this reservation s =
     (if 0 \<le> sint (r_unit reservation) \<and> r_res reservation = Some this
      then releaseTextureImageUnit_layer (r_unit reservation) (r_layer reservation) s
      else s)"

subsection \<open>Sequences of calls\<close>

text \<open>
  The public operations of the allocator \<open>this\<close> as a datatype, with the arguments of
  each call, and the destructor of a reservation as the last one. \<open>exec\<close> gives the
  allocator after one call, \<open>run\<close> after a sequence of calls, the first call of the list
  first.
\<close>

datatype ('l, 'a) call =
    Reserve c_unsigned "string option"
  | ReserveLayer c_unsigned "'l option" "string option"
  | ReserveRes c_unsigned "('l, 'a) TextureImageUnitReservation" "string option"
  | ReserveResForLayer c_unsigned "('l, 'a) TextureImageUnitReservation" "'l option" "string option"
  | Release c_int
  | ReleaseLayer c_int "'l option"
  | SetOffLimits c_int
  | DropReservation "('l, 'a) TextureImageUnitReservation"

fun exec :: "'a \<Rightarrow> ('l, 'a) call \<Rightarrow> 'l TerrainResources \<Rightarrow> 'l TerrainResources" where
  "exec this (Reserve maxUnits requestor) s =
     fst (snd (snd (reserveTextureImageUnit maxUnits requestor s)))"
| "exec this (ReserveLayer maxUnits layer requestor) s =
     fst (snd (snd (reserveTextureImageUnit_layer maxUnits layer requestor s)))"
| "exec this (ReserveRes maxUnits reservation requestor) s =
     fst (snd (snd (reserveTextureImageUnit_res this maxUnits reservation requestor s)))"
| "exec this (ReserveResForLayer maxUnits reservation layer requestor) s =
     fst (snd (snd (reserveTextureImageUnitForLayer this maxUnits reservation layer requestor s)))"
| "exec this (Release unit) s = releaseTextureImageUnit unit s"
| "exec this (ReleaseLayer unit layer) s = releaseTextureImageUnit_layer unit layer s"
| "exec this (SetOffLimits unit) s = snd (setTextureImageUnitOffLimits unit s)"
| "exec this (DropReservation reservation) s =
     TextureImageUnitReservation_dtor this reservation s"

fun run :: "'a \<Rightarrow> ('l, 'a) call list \<Rightarrow> 'l TerrainResources \<Rightarrow> 'l TerrainResources" where
  "run this [] s = s"
| "run this (c # cs) s = run this cs (exec this c s)"

text \<open>
  The calls that run \<^verbatim>\<open>releaseTextureImageUnit(unit)\<close>, the global release: the call
  itself, the layer-bound release with a null layer, and the destructor of a reservation of
  this allocator that holds the unit without a layer.
\<close>

fun releases_global :: "'a \<Rightarrow> c_int \<Rightarrow> ('l, 'a) call \<Rightarrow> bool" where
  "releases_global this unit (Release u) = (u = unit)"
| "releases_global this unit (ReleaseLayer u layer) = (u = unit \<and> layer = None)"
| "releases_global this unit (DropReservation reservation) =
     (r_unit reservation = unit \<and> r_layer reservation = None \<and>
      0 \<le> sint (r_unit reservation) \<and> r_res reservation = Some this)"
| "releases_global this unit _ = False"

text \<open>
  The calls that run the layer-bound release for the layer \<open>l\<close>: the call itself and the
  destructor of a reservation of this allocator bound to \<open>l\<close>.
\<close>

fun releases_layer :: "'a \<Rightarrow> 'l \<Rightarrow> ('l, 'a) call \<Rightarrow> bool" where
  "releases_layer this l (ReleaseLayer u layer) = (layer = Some l)"
| "releases_layer this l (DropReservation reservation) =
     (r_layer reservation = Some l \<and>
      0 \<le> sint (r_unit reservation) \<and> r_res reservation = Some this)"
| "releases_layer this l _ = False"

section \<open>Properties\<close>

subsection \<open>The scan\<close>

declare first_unused.simps [simp del]

lemma unat_inc_below: "(i :: 32 word) < m \<Longrightarrow> unat (i + 1) = Suc (unat i)"
proof -
  assume lt: "i < m"
  have "1 + i \<noteq> 0"
  proof
    assume "1 + i = 0"
    then have "i = - 1" by (simp add: add_eq_0_iff)
    with lt show False by simp
  qed
  then show ?thesis by (simp add: unatSuc add.commute)
qed

lemma inc_le_iff_less: "(i :: 32 word) < m \<Longrightarrow> i + 1 \<le> j \<longleftrightarrow> i < j"
  by (simp add: word_le_nat_alt word_less_nat_alt unat_inc_below Suc_le_eq)

text \<open>
  When the scan started at \<open>i\<close> enters the body at \<open>u\<close>, then \<open>u\<close> is below
  \<open>maxUnits\<close> and unused, and every index from \<open>i\<close> up to \<open>u\<close> is taken.
\<close>

lemma first_unused_Some:
  "first_unused taken m i = Some u \<Longrightarrow>
     i \<le> u \<and> u < m \<and> u \<notin> taken \<and> (\<forall>j. i \<le> j \<and> j < u \<longrightarrow> j \<in> taken)"
proof (induction taken m i rule: first_unused.induct)
  case (1 taken m i)
  show ?case
  proof (cases "i < m")
    case False
    with 1 show ?thesis by (simp add: first_unused.simps [of taken m i])
  next
    case lt: True
    show ?thesis
    proof (cases "i \<in> taken")
      case False
      with lt 1 show ?thesis by (auto simp add: first_unused.simps [of taken m i])
    next
      case True
      with lt 1(2) have r: "first_unused taken m (i + 1) = Some u"
        by (simp add: first_unused.simps [of taken m i])
      from 1(1) [OF lt _ r] True
      have ih: "i < u" "u < m" "u \<notin> taken" "\<forall>j. i < j \<and> j < u \<longrightarrow> j \<in> taken"
        by (auto simp: inc_le_iff_less [OF lt])
      with True show ?thesis by (auto simp: order_le_less)
    qed
  qed
qed

text \<open>The scan runs to its end exactly when every index from \<open>i\<close> on is taken.\<close>

lemma first_unused_None:
  "first_unused taken m i = None \<longleftrightarrow> (\<forall>j. i \<le> j \<and> j < m \<longrightarrow> j \<in> taken)"
proof (induction taken m i rule: first_unused.induct)
  case (1 taken m i)
  show ?case
  proof (cases "i < m")
    case False
    then show ?thesis by (auto simp add: first_unused.simps [of taken m i])
  next
    case lt: True
    show ?thesis
    proof (cases "i \<in> taken")
      case False
      with lt show ?thesis by (auto simp add: first_unused.simps [of taken m i])
    next
      case True
      with lt have "first_unused taken m i = None \<longleftrightarrow> first_unused taken m (i + 1) = None"
        by (simp add: first_unused.simps [of taken m i])
      also from 1 [OF lt] True
      have "\<dots> \<longleftrightarrow> (\<forall>j. i < j \<and> j < m \<longrightarrow> j \<in> taken)"
        by (simp add: inc_le_iff_less [OF lt])
      also from True have "\<dots> \<longleftrightarrow> (\<forall>j. i \<le> j \<and> j < m \<longrightarrow> j \<in> taken)"
        by (auto simp: order_le_less)
      finally show ?thesis .
    qed
  qed
qed

lemma first_unused_0_Some:
  "first_unused taken m 0 = Some u \<Longrightarrow>
     u < m \<and> u \<notin> taken \<and> (\<forall>j. j < u \<longrightarrow> j \<in> taken)"
  using first_unused_Some [of taken m 0 u] by simp

lemma first_unused_0_None:
  "first_unused taken m 0 = None \<longleftrightarrow> (\<forall>j. j < m \<longrightarrow> j \<in> taken)"
  using first_unused_None [of taken m 0] by simp

subsection \<open>The containers\<close>

lemma in_taken_global:
  "x \<in> taken_global s \<longleftrightarrow>
     x \<in> globallyReservedUnits s \<or> (\<exists>k. x \<in> perLayerUnits s k)"
  by (auto simp: taken_global_def perLayerUnits_def Mapping.lookup_default_def
      keys_is_none_rep Option.is_none_def split: option.splits)

lemma taken_global_eq:
  "taken_global s = globallyReservedUnits s \<union> (\<Union>layer. perLayerUnits s layer)"
  by (auto simp: in_taken_global)

lemma lookup_default_after_default:
  "Mapping.lookup_default {} (Mapping.default k {} m) k' = Mapping.lookup_default {} m k'"
  by (simp add: Mapping.lookup_default_def lookup_default')

lemma lookup_after_default:
  "Mapping.lookup (Mapping.default k {} m) k' =
     (if k' = k then Some (Mapping.lookup_default {} m k) else Mapping.lookup m k')"
  by (auto simp: lookup_default')

lemma perLayerUnits_lookup_Some:
  "Mapping.lookup (perLayerReservedUnits s) k = Some units \<Longrightarrow> perLayerUnits s k = units"
  by (simp add: perLayerUnits_def Mapping.lookup_default_def)

text \<open>The equations that evaluate the operations on a written-out allocator.\<close>

lemmas eval_simps =
  reserveTextureImageUnit_def reserveTextureImageUnit_layer_def
  reserveTextureImageUnit_res_def reserveTextureImageUnitForLayer_def
  releaseTextureImageUnit_def releaseTextureImageUnit_layer_def
  setTextureImageUnitOffLimits_def TextureImageUnitReservation_dtor_def
  TerrainResources_init_def TextureImageUnitReservation_init_def
  taken_global_def perLayerUnits_def first_unused.simps
  Mapping.lookup_default_def Mapping.default_def Let_def
  update_update(1) delete_update(1)

subsection \<open>What each reserve function returns\<close>

lemma reserveTextureImageUnit_result:
  assumes "reserveTextureImageUnit m rq s = (ok, u, s', msgs)"
  shows "perLayerReservedUnits s' = perLayerReservedUnits s"
    and "ok \<Longrightarrow> first_unused (taken_global s) m 0 = Some u"
    and "ok \<Longrightarrow> globallyReservedUnits s' = insert u (globallyReservedUnits s)"
    and "\<not> ok \<Longrightarrow> first_unused (taken_global s) m 0 = None"
    and "\<not> ok \<Longrightarrow> u = - 1 \<and> s' = s \<and> msgs = []"
  using assms by (auto simp: reserveTextureImageUnit_def split: option.splits)

lemma reserveTextureImageUnit_res_result:
  assumes "reserveTextureImageUnit_res this m r rq s = (ok, r', s', msgs)"
  shows "perLayerReservedUnits s' = perLayerReservedUnits s"
    and "ok \<Longrightarrow> first_unused (taken_global s) m 0 = Some (r_unit r')"
    and "ok \<Longrightarrow> globallyReservedUnits s' = insert (r_unit r') (globallyReservedUnits s)"
    and "ok \<Longrightarrow> r_layer r' = None \<and> r_res r' = Some this"
    and "\<not> ok \<Longrightarrow> first_unused (taken_global s) m 0 = None"
    and "\<not> ok \<Longrightarrow> r' = r\<lparr>r_unit := - 1\<rparr> \<and> s' = s \<and> msgs = []"
  using assms by (auto simp: reserveTextureImageUnit_res_def split: option.splits)

lemma reserveTextureImageUnit_layer_result:
  assumes "reserveTextureImageUnit_layer m (Some l) rq s = (ok, u, s', msgs)"
  shows "globallyReservedUnits s' = globallyReservedUnits s"
    and "\<And>k. k \<noteq> Some l \<Longrightarrow>
           Mapping.lookup (perLayerReservedUnits s') k = Mapping.lookup (perLayerReservedUnits s) k"
    and "ok \<Longrightarrow> first_unused (globallyReservedUnits s \<union> perLayerUnits s (Some l)) m 0 = Some u"
    and "ok \<Longrightarrow> Mapping.lookup (perLayerReservedUnits s') (Some l)
                 = Some (insert u (perLayerUnits s (Some l)))"
    and "\<not> ok \<Longrightarrow> first_unused (globallyReservedUnits s \<union> perLayerUnits s (Some l)) m 0 = None"
    and "\<not> ok \<Longrightarrow> Mapping.lookup (perLayerReservedUnits s') (Some l)
                 = Some (perLayerUnits s (Some l))"
    and "\<not> ok \<Longrightarrow> u = - 1 \<and> msgs = []"
  using assms
  by (auto simp: reserveTextureImageUnit_layer_def Let_def perLayerUnits_def
      lookup_default_after_default lookup_after_default split: option.splits)

lemma reserveTextureImageUnitForLayer_result:
  assumes "reserveTextureImageUnitForLayer this m r (Some l) rq s = (ok, r', s', msgs)"
  shows "globallyReservedUnits s' = globallyReservedUnits s"
    and "\<And>k. k \<noteq> Some l \<Longrightarrow>
           Mapping.lookup (perLayerReservedUnits s') k = Mapping.lookup (perLayerReservedUnits s) k"
    and "ok \<Longrightarrow> first_unused (globallyReservedUnits s \<union> perLayerUnits s (Some l)) m 0
                 = Some (r_unit r')"
    and "ok \<Longrightarrow> Mapping.lookup (perLayerReservedUnits s') (Some l)
                 = Some (insert (r_unit r') (perLayerUnits s (Some l)))"
    and "ok \<Longrightarrow> r_layer r' = Some l \<and> r_res r' = Some this"
    and "\<not> ok \<Longrightarrow> first_unused (globallyReservedUnits s \<union> perLayerUnits s (Some l)) m 0 = None"
    and "\<not> ok \<Longrightarrow> Mapping.lookup (perLayerReservedUnits s') (Some l)
                 = Some (perLayerUnits s (Some l))"
    and "\<not> ok \<Longrightarrow> r' = r\<lparr>r_unit := - 1\<rparr> \<and> msgs = []"
  using assms
  by (auto simp: reserveTextureImageUnitForLayer_def Let_def perLayerUnits_def
      lookup_default_after_default lookup_after_default split: option.splits)

text \<open>
  A successful global reserve, in both forms, and a successful layer-bound reserve, in
  both forms: where the unit comes from and where it goes.
\<close>

lemma global_scan_first_fit:
  assumes "first_unused (taken_global s) maxUnits 0 = Some u"
  shows "u < maxUnits \<and>
      u \<notin> globallyReservedUnits s \<union> (\<Union>layer. perLayerUnits s layer) \<and>
      (\<forall>i. i < u \<longrightarrow> i \<in> globallyReservedUnits s \<union> (\<Union>layer. perLayerUnits s layer))"
  using first_unused_0_Some [OF assms] unfolding taken_global_eq by blast

lemma layer_update_units:
  assumes "globallyReservedUnits s' = globallyReservedUnits s"
    and "\<And>k. k \<noteq> Some l \<Longrightarrow>
           Mapping.lookup (perLayerReservedUnits s') k = Mapping.lookup (perLayerReservedUnits s) k"
    and "Mapping.lookup (perLayerReservedUnits s') (Some l) = Some (insert u (perLayerUnits s (Some l)))"
  shows "perLayerUnits s' (Some l) = insert u (perLayerUnits s (Some l)) \<and>
      globallyReservedUnits s' = globallyReservedUnits s \<and>
      (\<forall>k. k \<noteq> Some l \<longrightarrow> perLayerUnits s' k = perLayerUnits s k)"
  using assms by (simp add: perLayerUnits_def Mapping.lookup_default_def)

text \<open>
  C1. First fit. A successful reserve returns the smallest index below \<open>maxUnits\<close> that
  is not in the taken set of its scope, and inserts it into the set of its scope. For the
  two global forms the taken set is \<^verbatim>\<open>_globallyReservedUnits\<close> together with the units of
  every layer, and the unit goes into \<^verbatim>\<open>_globallyReservedUnits\<close>; for the two layer-bound
  forms it is \<^verbatim>\<open>_globallyReservedUnits\<close> together with the units of that layer only, and
  the unit goes into the set of that layer. The order is the one of the loop index.
\<close>

theorem first_fit_reserve:
  "(reserveTextureImageUnit maxUnits requestor s = (True, u, s', msgs) \<longrightarrow>
      u < maxUnits \<and>
      u \<notin> globallyReservedUnits s \<union> (\<Union>layer. perLayerUnits s layer) \<and>
      (\<forall>i. i < u \<longrightarrow> i \<in> globallyReservedUnits s \<union> (\<Union>layer. perLayerUnits s layer)) \<and>
      globallyReservedUnits s' = insert u (globallyReservedUnits s) \<and>
      perLayerReservedUnits s' = perLayerReservedUnits s) \<and>
   (reserveTextureImageUnit_res this maxUnits r requestor s = (True, r', s', msgs) \<longrightarrow>
      r_unit r' < maxUnits \<and>
      r_unit r' \<notin> globallyReservedUnits s \<union> (\<Union>layer. perLayerUnits s layer) \<and>
      (\<forall>i. i < r_unit r' \<longrightarrow>
           i \<in> globallyReservedUnits s \<union> (\<Union>layer. perLayerUnits s layer)) \<and>
      globallyReservedUnits s' = insert (r_unit r') (globallyReservedUnits s) \<and>
      perLayerReservedUnits s' = perLayerReservedUnits s) \<and>
   (reserveTextureImageUnit_layer maxUnits (Some l) requestor s = (True, u, s', msgs) \<longrightarrow>
      u < maxUnits \<and>
      u \<notin> globallyReservedUnits s \<union> perLayerUnits s (Some l) \<and>
      (\<forall>i. i < u \<longrightarrow> i \<in> globallyReservedUnits s \<union> perLayerUnits s (Some l)) \<and>
      perLayerUnits s' (Some l) = insert u (perLayerUnits s (Some l)) \<and>
      globallyReservedUnits s' = globallyReservedUnits s \<and>
      (\<forall>k. k \<noteq> Some l \<longrightarrow> perLayerUnits s' k = perLayerUnits s k)) \<and>
   (reserveTextureImageUnitForLayer this maxUnits r (Some l) requestor s = (True, r', s', msgs) \<longrightarrow>
      r_unit r' < maxUnits \<and>
      r_unit r' \<notin> globallyReservedUnits s \<union> perLayerUnits s (Some l) \<and>
      (\<forall>i. i < r_unit r' \<longrightarrow> i \<in> globallyReservedUnits s \<union> perLayerUnits s (Some l)) \<and>
      perLayerUnits s' (Some l) = insert (r_unit r') (perLayerUnits s (Some l)) \<and>
      globallyReservedUnits s' = globallyReservedUnits s \<and>
      (\<forall>k. k \<noteq> Some l \<longrightarrow> perLayerUnits s' k = perLayerUnits s k))"
proof (intro conjI impI)
  assume a: "reserveTextureImageUnit maxUnits requestor s = (True, u, s', msgs)"
  from reserveTextureImageUnit_result(2) [OF a]
  have "first_unused (taken_global s) maxUnits 0 = Some u" by simp
  from global_scan_first_fit [OF this]
  show "u < maxUnits"
    and "u \<notin> globallyReservedUnits s \<union> (\<Union>layer. perLayerUnits s layer)"
    and "\<forall>i. i < u \<longrightarrow> i \<in> globallyReservedUnits s \<union> (\<Union>layer. perLayerUnits s layer)"
    by blast+
  from reserveTextureImageUnit_result(3) [OF a]
  show "globallyReservedUnits s' = insert u (globallyReservedUnits s)" by simp
  from reserveTextureImageUnit_result(1) [OF a]
  show "perLayerReservedUnits s' = perLayerReservedUnits s" .
next
  assume a: "reserveTextureImageUnit_res this maxUnits r requestor s = (True, r', s', msgs)"
  from reserveTextureImageUnit_res_result(2) [OF a]
  have "first_unused (taken_global s) maxUnits 0 = Some (r_unit r')" by simp
  from global_scan_first_fit [OF this]
  show "r_unit r' < maxUnits"
    and "r_unit r' \<notin> globallyReservedUnits s \<union> (\<Union>layer. perLayerUnits s layer)"
    and "\<forall>i. i < r_unit r' \<longrightarrow>
           i \<in> globallyReservedUnits s \<union> (\<Union>layer. perLayerUnits s layer)"
    by blast+
  from reserveTextureImageUnit_res_result(3) [OF a]
  show "globallyReservedUnits s' = insert (r_unit r') (globallyReservedUnits s)" by simp
  from reserveTextureImageUnit_res_result(1) [OF a]
  show "perLayerReservedUnits s' = perLayerReservedUnits s" .
next
  assume a: "reserveTextureImageUnit_layer maxUnits (Some l) requestor s = (True, u, s', msgs)"
  from reserveTextureImageUnit_layer_result(3) [OF a]
  have "first_unused (globallyReservedUnits s \<union> perLayerUnits s (Some l)) maxUnits 0 = Some u"
    by simp
  from first_unused_0_Some [OF this]
  show "u < maxUnits"
    and "u \<notin> globallyReservedUnits s \<union> perLayerUnits s (Some l)"
    and "\<forall>i. i < u \<longrightarrow> i \<in> globallyReservedUnits s \<union> perLayerUnits s (Some l)"
    by blast+
  from layer_update_units [of s' s l u] reserveTextureImageUnit_layer_result(1,2,4) [OF a]
  show "perLayerUnits s' (Some l) = insert u (perLayerUnits s (Some l))"
    and "globallyReservedUnits s' = globallyReservedUnits s"
    and "\<forall>k. k \<noteq> Some l \<longrightarrow> perLayerUnits s' k = perLayerUnits s k"
    by simp_all
next
  assume a: "reserveTextureImageUnitForLayer this maxUnits r (Some l) requestor s
               = (True, r', s', msgs)"
  from reserveTextureImageUnitForLayer_result(3) [OF a]
  have "first_unused (globallyReservedUnits s \<union> perLayerUnits s (Some l)) maxUnits 0
          = Some (r_unit r')"
    by simp
  from first_unused_0_Some [OF this]
  show "r_unit r' < maxUnits"
    and "r_unit r' \<notin> globallyReservedUnits s \<union> perLayerUnits s (Some l)"
    and "\<forall>i. i < r_unit r' \<longrightarrow> i \<in> globallyReservedUnits s \<union> perLayerUnits s (Some l)"
    by blast+
  from layer_update_units [of s' s l "r_unit r'"]
    reserveTextureImageUnitForLayer_result(1,2,4) [OF a]
  show "perLayerUnits s' (Some l) = insert (r_unit r') (perLayerUnits s (Some l))"
    and "globallyReservedUnits s' = globallyReservedUnits s"
    and "\<forall>k. k \<noteq> Some l \<longrightarrow> perLayerUnits s' k = perLayerUnits s k"
    by simp_all
qed

text \<open>
  On an allocator with unit 0 reserved globally and unit 1 reserved under layer 7, with
  four units: both global forms return 2; for layer 8, which holds nothing, both
  layer-bound forms return 1.
\<close>

theorem first_fit_reserve_witness:
  "reserveTextureImageUnit 4 None
     \<lparr>globallyReservedUnits = {0},
      perLayerReservedUnits = Mapping.update (Some (7::nat)) {1} Mapping.empty\<rparr>
   = (True, 2,
      \<lparr>globallyReservedUnits = {2, 0},
       perLayerReservedUnits = Mapping.update (Some 7) {1} Mapping.empty\<rparr>, []) \<and>
   reserveTextureImageUnit_res () 4 TextureImageUnitReservation_init None
     \<lparr>globallyReservedUnits = {0},
      perLayerReservedUnits = Mapping.update (Some (7::nat)) {1} Mapping.empty\<rparr>
   = (True, \<lparr>r_unit = 2, r_layer = None, r_res = Some ()\<rparr>,
      \<lparr>globallyReservedUnits = {2, 0},
       perLayerReservedUnits = Mapping.update (Some 7) {1} Mapping.empty\<rparr>, []) \<and>
   (1 :: c_int) < 2 \<and>
   1 \<in> globallyReservedUnits
            \<lparr>globallyReservedUnits = {0},
             perLayerReservedUnits = Mapping.update (Some (7::nat)) {1} Mapping.empty\<rparr> \<union>
          (\<Union>layer. perLayerUnits
            \<lparr>globallyReservedUnits = {0},
             perLayerReservedUnits = Mapping.update (Some (7::nat)) {1} Mapping.empty\<rparr> layer) \<and>
   reserveTextureImageUnit_layer 4 (Some 8) None
     \<lparr>globallyReservedUnits = {0},
      perLayerReservedUnits = Mapping.update (Some (7::nat)) {1} Mapping.empty\<rparr>
   = (True, 1,
      \<lparr>globallyReservedUnits = {0},
       perLayerReservedUnits =
         Mapping.update (Some 8) {1} (Mapping.update (Some 7) {1} Mapping.empty)\<rparr>, []) \<and>
   reserveTextureImageUnitForLayer () 4 TextureImageUnitReservation_init (Some 8) None
     \<lparr>globallyReservedUnits = {0},
      perLayerReservedUnits = Mapping.update (Some (7::nat)) {1} Mapping.empty\<rparr>
   = (True, \<lparr>r_unit = 1, r_layer = Some 8, r_res = Some ()\<rparr>,
      \<lparr>globallyReservedUnits = {0},
       perLayerReservedUnits =
         Mapping.update (Some 8) {1} (Mapping.update (Some 7) {1} Mapping.empty)\<rparr>, []) \<and>
   perLayerUnits
     \<lparr>globallyReservedUnits = {0},
      perLayerReservedUnits =
        Mapping.update (Some 8) {1} (Mapping.update (Some (7::nat)) {1} Mapping.empty)\<rparr> (Some 8)
   = insert 1 (perLayerUnits
     \<lparr>globallyReservedUnits = {0},
      perLayerReservedUnits = Mapping.update (Some (7::nat)) {1} Mapping.empty\<rparr> (Some 8))"
proof -
  let ?s = "\<lparr>globallyReservedUnits = {0 :: c_int},
      perLayerReservedUnits = Mapping.update (Some (7::nat)) {1} Mapping.empty\<rparr>"
  let ?g = "\<lparr>globallyReservedUnits = {2, 0 :: c_int},
       perLayerReservedUnits = Mapping.update (Some (7::nat)) {1} Mapping.empty\<rparr>"
  let ?l = "\<lparr>globallyReservedUnits = {0 :: c_int},
       perLayerReservedUnits =
         Mapping.update (Some 8) {1} (Mapping.update (Some (7::nat)) {1} Mapping.empty)\<rparr>"
  let ?r = "TextureImageUnitReservation_init :: (nat, unit) TextureImageUnitReservation"
  let ?rg = "\<lparr>r_unit = 2, r_layer = None :: nat option, r_res = Some ()\<rparr>"
  let ?rl = "\<lparr>r_unit = 1, r_layer = Some (8 :: nat), r_res = Some ()\<rparr>"
  have g: "reserveTextureImageUnit 4 None ?s = (True, 2, ?g, [])"
    by (simp add: eval_simps)
  have gr: "reserveTextureImageUnit_res () 4 ?r None ?s = (True, ?rg, ?g, [])"
    by (simp add: eval_simps)
  have l: "reserveTextureImageUnit_layer 4 (Some 8) None ?s = (True, 1, ?l, [])"
    by (simp add: eval_simps)
  have lr: "reserveTextureImageUnitForLayer () 4 ?r (Some 8) None ?s = (True, ?rl, ?l, [])"
    by (simp add: eval_simps)
  note t = first_fit_reserve [of 4 None ?s 2 ?g "[]" "()" ?r ?rg 8]
  note t' = first_fit_reserve [of 4 None ?s 1 ?l "[]" "()" ?r ?rl 8]
  have f0: "(1 :: c_int) < 2" by simp
  have f1: "1 \<in> globallyReservedUnits ?s \<union> (\<Union>layer. perLayerUnits ?s layer)"
    by (rule t [THEN conjunct1, THEN mp, OF g, THEN conjunct2, THEN conjunct2, THEN conjunct1,
          THEN spec, THEN mp, OF f0])
  have f2: "r_unit ?rg < (4 :: c_int)"
    by (rule t [THEN conjunct2, THEN conjunct1, THEN mp, OF gr, THEN conjunct1])
  have f3: "perLayerUnits ?l (Some 8) = insert 1 (perLayerUnits ?s (Some 8))"
    by (rule t' [THEN conjunct2, THEN conjunct2, THEN conjunct1, THEN mp, OF l,
          THEN conjunct2, THEN conjunct2, THEN conjunct2, THEN conjunct1])
  have f4: "r_unit ?rl < (4 :: c_int)"
    by (rule t' [THEN conjunct2, THEN conjunct2, THEN conjunct2, THEN mp, OF lr, THEN conjunct1])
  show ?thesis by (intro conjI; fact)
qed

subsection \<open>Global and layer-bound reservations\<close>

lemma reserveTextureImageUnit_not_taken:
  assumes "reserveTextureImageUnit m rq s = (True, u, s', msgs)"
  shows "u \<notin> globallyReservedUnits s" and "u \<notin> perLayerUnits s layer"
    and "u \<in> globallyReservedUnits s'"
proof -
  from reserveTextureImageUnit_result(2) [OF assms]
  have "first_unused (taken_global s) m 0 = Some u" by simp
  from first_unused_0_Some [OF this] have "u \<notin> taken_global s" by simp
  then show "u \<notin> globallyReservedUnits s" and "u \<notin> perLayerUnits s layer"
    by (auto simp: in_taken_global)
  from reserveTextureImageUnit_result(3) [OF assms]
  show "u \<in> globallyReservedUnits s'" by simp
qed

lemma reserveTextureImageUnit_res_not_taken:
  assumes "reserveTextureImageUnit_res this m r rq s = (True, r', s', msgs)"
  shows "r_unit r' \<notin> globallyReservedUnits s" and "r_unit r' \<notin> perLayerUnits s layer"
    and "r_unit r' \<in> globallyReservedUnits s'"
proof -
  from reserveTextureImageUnit_res_result(2) [OF assms]
  have "first_unused (taken_global s) m 0 = Some (r_unit r')" by simp
  from first_unused_0_Some [OF this] have "r_unit r' \<notin> taken_global s" by simp
  then show "r_unit r' \<notin> globallyReservedUnits s" and "r_unit r' \<notin> perLayerUnits s layer"
    by (auto simp: in_taken_global)
  from reserveTextureImageUnit_res_result(3) [OF assms]
  show "r_unit r' \<in> globallyReservedUnits s'" by simp
qed

lemma reserveTextureImageUnit_layer_not_taken:
  assumes "reserveTextureImageUnit_layer m (Some l) rq s = (True, u, s', msgs)"
  shows "u \<notin> globallyReservedUnits s" and "u \<notin> perLayerUnits s (Some l)"
    and "u \<in> perLayerUnits s' (Some l)"
proof -
  from reserveTextureImageUnit_layer_result(3) [OF assms]
  have "first_unused (globallyReservedUnits s \<union> perLayerUnits s (Some l)) m 0 = Some u"
    by simp
  from first_unused_0_Some [OF this]
  show "u \<notin> globallyReservedUnits s" and "u \<notin> perLayerUnits s (Some l)" by simp_all
  from reserveTextureImageUnit_layer_result(4) [OF assms]
  show "u \<in> perLayerUnits s' (Some l)"
    by (simp add: perLayerUnits_lookup_Some)
qed

lemma reserveTextureImageUnitForLayer_not_taken:
  assumes "reserveTextureImageUnitForLayer this m r (Some l) rq s = (True, r', s', msgs)"
  shows "r_unit r' \<notin> globallyReservedUnits s" and "r_unit r' \<notin> perLayerUnits s (Some l)"
    and "r_unit r' \<in> perLayerUnits s' (Some l)"
proof -
  from reserveTextureImageUnitForLayer_result(3) [OF assms]
  have "first_unused (globallyReservedUnits s \<union> perLayerUnits s (Some l)) m 0
          = Some (r_unit r')"
    by simp
  from first_unused_0_Some [OF this]
  show "r_unit r' \<notin> globallyReservedUnits s" and "r_unit r' \<notin> perLayerUnits s (Some l)"
    by simp_all
  from reserveTextureImageUnitForLayer_result(4) [OF assms]
  show "r_unit r' \<in> perLayerUnits s' (Some l)"
    by (simp add: perLayerUnits_lookup_Some)
qed

text \<open>
  C2. A successful global reserve, in both forms, returns a unit that no layer holds, and
  records it in \<^verbatim>\<open>_globallyReservedUnits\<close>; a successful layer-bound reserve, in both
  forms, returns a unit that is not in \<^verbatim>\<open>_globallyReservedUnits\<close>, and records it under
  its layer. So as long as a unit stays in the set where its reservation put it, no
  reservation of the other kind returns it; in particular a global reserve followed by a
  layer-bound one, or the other way round, return different units.
\<close>

theorem global_and_layer_reservations_disjoint:
  "(reserveTextureImageUnit maxUnits requestor s = (True, u, s', msgs) \<longrightarrow>
      (\<forall>layer. u \<notin> perLayerUnits s layer) \<and> u \<in> globallyReservedUnits s') \<and>
   (reserveTextureImageUnit_res this maxUnits r requestor s = (True, r', s', msgs) \<longrightarrow>
      (\<forall>layer. r_unit r' \<notin> perLayerUnits s layer) \<and> r_unit r' \<in> globallyReservedUnits s') \<and>
   (reserveTextureImageUnit_layer maxUnits (Some l) requestor s = (True, u, s', msgs) \<longrightarrow>
      u \<notin> globallyReservedUnits s \<and> u \<in> perLayerUnits s' (Some l)) \<and>
   (reserveTextureImageUnitForLayer this maxUnits r (Some l) requestor s = (True, r', s', msgs) \<longrightarrow>
      r_unit r' \<notin> globallyReservedUnits s \<and> r_unit r' \<in> perLayerUnits s' (Some l)) \<and>
   (reserveTextureImageUnit maxUnits requestor s = (True, u, s', msgs) \<and>
    reserveTextureImageUnit_layer maxUnits2 (Some l) requestor2 s' = (True, v, s'', msgs2) \<longrightarrow>
      u \<noteq> v) \<and>
   (reserveTextureImageUnit_layer maxUnits (Some l) requestor s = (True, u, s', msgs) \<and>
    reserveTextureImageUnit maxUnits2 requestor2 s' = (True, v, s'', msgs2) \<longrightarrow>
      u \<noteq> v)"
proof (intro conjI impI allI)
  assume a: "reserveTextureImageUnit maxUnits requestor s = (True, u, s', msgs)"
  show "u \<notin> perLayerUnits s layer" for layer
    by (rule reserveTextureImageUnit_not_taken(2) [OF a])
  show "u \<in> globallyReservedUnits s'"
    by (rule reserveTextureImageUnit_not_taken(3) [OF a])
next
  assume a: "reserveTextureImageUnit_res this maxUnits r requestor s = (True, r', s', msgs)"
  show "r_unit r' \<notin> perLayerUnits s layer" for layer
    by (rule reserveTextureImageUnit_res_not_taken(2) [OF a])
  show "r_unit r' \<in> globallyReservedUnits s'"
    by (rule reserveTextureImageUnit_res_not_taken(3) [OF a])
next
  assume a: "reserveTextureImageUnit_layer maxUnits (Some l) requestor s = (True, u, s', msgs)"
  show "u \<notin> globallyReservedUnits s"
    by (rule reserveTextureImageUnit_layer_not_taken(1) [OF a])
  show "u \<in> perLayerUnits s' (Some l)"
    by (rule reserveTextureImageUnit_layer_not_taken(3) [OF a])
next
  assume a: "reserveTextureImageUnitForLayer this maxUnits r (Some l) requestor s
               = (True, r', s', msgs)"
  show "r_unit r' \<notin> globallyReservedUnits s"
    by (rule reserveTextureImageUnitForLayer_not_taken(1) [OF a])
  show "r_unit r' \<in> perLayerUnits s' (Some l)"
    by (rule reserveTextureImageUnitForLayer_not_taken(3) [OF a])
next
  assume "reserveTextureImageUnit maxUnits requestor s = (True, u, s', msgs) \<and>
    reserveTextureImageUnit_layer maxUnits2 (Some l) requestor2 s' = (True, v, s'', msgs2)"
  then have a: "reserveTextureImageUnit maxUnits requestor s = (True, u, s', msgs)"
    and b: "reserveTextureImageUnit_layer maxUnits2 (Some l) requestor2 s' = (True, v, s'', msgs2)"
    by simp_all
  from reserveTextureImageUnit_not_taken(3) [OF a]
    reserveTextureImageUnit_layer_not_taken(1) [OF b]
  show "u \<noteq> v" by blast
next
  assume "reserveTextureImageUnit_layer maxUnits (Some l) requestor s = (True, u, s', msgs) \<and>
    reserveTextureImageUnit maxUnits2 requestor2 s' = (True, v, s'', msgs2)"
  then have a: "reserveTextureImageUnit_layer maxUnits (Some l) requestor s = (True, u, s', msgs)"
    and b: "reserveTextureImageUnit maxUnits2 requestor2 s' = (True, v, s'', msgs2)"
    by simp_all
  from reserveTextureImageUnit_layer_not_taken(3) [OF a]
    reserveTextureImageUnit_not_taken(2) [OF b, of "Some l"]
  show "u \<noteq> v" by blast
qed

text \<open>
  A fresh allocator with four units: the global reserve returns 0, the layer-bound reserve
  for layer 7 that follows returns 1; and in the other order the layer gets 0 and the
  global reserve 1.
\<close>

theorem global_and_layer_reservations_disjoint_witness:
  "reserveTextureImageUnit 4 None (TerrainResources_init :: nat TerrainResources)
     = (True, 0, \<lparr>globallyReservedUnits = {0}, perLayerReservedUnits = Mapping.empty\<rparr>, []) \<and>
   reserveTextureImageUnit_layer 4 (Some 7) None
       \<lparr>globallyReservedUnits = {0}, perLayerReservedUnits = Mapping.empty\<rparr>
     = (True, 1,
        \<lparr>globallyReservedUnits = {0},
         perLayerReservedUnits = Mapping.update (Some (7::nat)) {1} Mapping.empty\<rparr>, []) \<and>
   (0 :: c_int) \<noteq> 1 \<and>
   reserveTextureImageUnit_layer 4 (Some 7) None (TerrainResources_init :: nat TerrainResources)
     = (True, 0,
        \<lparr>globallyReservedUnits = {},
         perLayerReservedUnits = Mapping.update (Some (7::nat)) {0} Mapping.empty\<rparr>, []) \<and>
   reserveTextureImageUnit 4 None
       \<lparr>globallyReservedUnits = {},
        perLayerReservedUnits = Mapping.update (Some (7::nat)) {0} Mapping.empty\<rparr>
     = (True, 1,
        \<lparr>globallyReservedUnits = {1},
         perLayerReservedUnits = Mapping.update (Some (7::nat)) {0} Mapping.empty\<rparr>, []) \<and>
   (1 :: c_int) \<notin> perLayerUnits
       \<lparr>globallyReservedUnits = {},
        perLayerReservedUnits = Mapping.update (Some (7::nat)) {0} Mapping.empty\<rparr> (Some 7)"
proof -
  let ?i = "TerrainResources_init :: nat TerrainResources"
  let ?g = "\<lparr>globallyReservedUnits = {0 :: c_int},
            perLayerReservedUnits = Mapping.empty :: nat PerLayerReservedUnits\<rparr>"
  let ?gl = "\<lparr>globallyReservedUnits = {0 :: c_int},
         perLayerReservedUnits = Mapping.update (Some (7::nat)) {1} Mapping.empty\<rparr>"
  let ?l = "\<lparr>globallyReservedUnits = {} :: c_int set,
         perLayerReservedUnits = Mapping.update (Some (7::nat)) {0} Mapping.empty\<rparr>"
  let ?lg = "\<lparr>globallyReservedUnits = {1 :: c_int},
         perLayerReservedUnits = Mapping.update (Some (7::nat)) {0} Mapping.empty\<rparr>"
  have a: "reserveTextureImageUnit 4 None ?i = (True, 0, ?g, [])"
    by (simp add: eval_simps)
  have b: "reserveTextureImageUnit_layer 4 (Some 7) None ?g = (True, 1, ?gl, [])"
    by (simp add: eval_simps)
  have c: "reserveTextureImageUnit_layer 4 (Some 7) None ?i = (True, 0, ?l, [])"
    by (simp add: eval_simps)
  have d: "reserveTextureImageUnit 4 None ?l = (True, 1, ?lg, [])"
    by (simp add: eval_simps)
  note t = global_and_layer_reservations_disjoint
    [of 4 None ?i 0 ?g "[]" "()" undefined undefined 7 4 None 1 ?gl "[]"]
  note t' = global_and_layer_reservations_disjoint
    [of 4 None ?l 1 ?lg "[]" "()" undefined undefined 7]
  have e: "(0 :: c_int) \<noteq> 1"
    by (rule t [THEN conjunct2, THEN conjunct2, THEN conjunct2, THEN conjunct2,
                THEN conjunct1, THEN mp, OF conjI [OF a b]])
  have f: "(1 :: c_int) \<notin> perLayerUnits ?l (Some 7)"
    by (rule t' [THEN conjunct1, THEN mp, OF d, THEN conjunct1, THEN spec])
  show ?thesis by (intro conjI; fact)
qed

subsection \<open>Distinct layers\<close>

lemma first_unused_empty: "0 < m \<Longrightarrow> first_unused {} m 0 = Some 0"
  by (simp add: first_unused.simps [of "{}" m 0])

text \<open>
  What a layer-bound reserve returns (its \<^verbatim>\<open>bool\<close> and the unit) is a function of
  \<^verbatim>\<open>maxUnits\<close>, \<^verbatim>\<open>_globallyReservedUnits\<close> and the units of the requesting layer.
\<close>

lemma reserveTextureImageUnit_layer_returns:
  "(fst (reserveTextureImageUnit_layer m (Some l) rq s),
    fst (snd (reserveTextureImageUnit_layer m (Some l) rq s))) =
   (case first_unused (globallyReservedUnits s \<union> perLayerUnits s (Some l)) m 0 of
      Some i \<Rightarrow> (True, i) | None \<Rightarrow> (False, - 1))"
  by (simp add: reserveTextureImageUnit_layer_def Let_def perLayerUnits_def
      lookup_default_after_default split: option.splits)

text \<open>
  C3. Layer-bound reserves of distinct layers do not block each other. The result of a
  layer-bound reserve is the same on any two allocators that agree on
  \<^verbatim>\<open>_globallyReservedUnits\<close> and on the units of the requesting layer, whatever the other
  layers hold. On a fresh allocator with at least one unit, the reserve for \<open>L1\<close> returns
  unit 0, and the reserve for a different layer \<open>L2\<close> that follows returns unit 0 again.
\<close>

theorem distinct_layers_share_units:
  "(globallyReservedUnits s = globallyReservedUnits t \<and>
    perLayerUnits s (Some l) = perLayerUnits t (Some l) \<longrightarrow>
      fst (reserveTextureImageUnit_layer maxUnits (Some l) requestor s)
        = fst (reserveTextureImageUnit_layer maxUnits (Some l) requestor t) \<and>
      fst (snd (reserveTextureImageUnit_layer maxUnits (Some l) requestor s))
        = fst (snd (reserveTextureImageUnit_layer maxUnits (Some l) requestor t))) \<and>
   (L1 \<noteq> L2 \<and> 1 \<le> maxUnits \<longrightarrow>
      reserveTextureImageUnit_layer maxUnits (Some L1) requestor1 TerrainResources_init
        = (True, 0,
           \<lparr>globallyReservedUnits = {},
            perLayerReservedUnits = Mapping.update (Some L1) {0} Mapping.empty\<rparr>,
           (case requestor1 of None \<Rightarrow> [] | Some r \<Rightarrow> [ReservedByLayer 0 L1 r])) \<and>
      reserveTextureImageUnit_layer maxUnits (Some L2) requestor2
          \<lparr>globallyReservedUnits = {},
           perLayerReservedUnits = Mapping.update (Some L1) {0} Mapping.empty\<rparr>
        = (True, 0,
           \<lparr>globallyReservedUnits = {},
            perLayerReservedUnits =
              Mapping.update (Some L2) {0} (Mapping.update (Some L1) {0} Mapping.empty)\<rparr>,
           (case requestor2 of None \<Rightarrow> [] | Some r \<Rightarrow> [ReservedByLayer 0 L2 r])))"
proof (intro conjI impI)
  assume a: "globallyReservedUnits s = globallyReservedUnits t \<and>
    perLayerUnits s (Some l) = perLayerUnits t (Some l)"
  have "(fst (reserveTextureImageUnit_layer maxUnits (Some l) requestor s),
         fst (snd (reserveTextureImageUnit_layer maxUnits (Some l) requestor s))) =
        (fst (reserveTextureImageUnit_layer maxUnits (Some l) requestor t),
         fst (snd (reserveTextureImageUnit_layer maxUnits (Some l) requestor t)))"
    unfolding reserveTextureImageUnit_layer_returns using a by simp
  then show "fst (reserveTextureImageUnit_layer maxUnits (Some l) requestor s)
        = fst (reserveTextureImageUnit_layer maxUnits (Some l) requestor t)"
    and "fst (snd (reserveTextureImageUnit_layer maxUnits (Some l) requestor s))
        = fst (snd (reserveTextureImageUnit_layer maxUnits (Some l) requestor t))"
    by simp_all
next
  assume a: "L1 \<noteq> L2 \<and> 1 \<le> maxUnits"
  then have pos: "0 < maxUnits" by (simp add: word_less_nat_alt word_le_nat_alt)
  from a have ne: "L2 \<noteq> L1" by blast
  show "reserveTextureImageUnit_layer maxUnits (Some L1) requestor1 TerrainResources_init
        = (True, 0,
           \<lparr>globallyReservedUnits = {},
            perLayerReservedUnits = Mapping.update (Some L1) {0} Mapping.empty\<rparr>,
           (case requestor1 of None \<Rightarrow> [] | Some r \<Rightarrow> [ReservedByLayer 0 L1 r]))"
    by (simp add: reserveTextureImageUnit_layer_def TerrainResources_init_def Let_def
        Mapping.default_def Mapping.lookup_default_def first_unused_empty [OF pos]
        update_update(1))
  from ne show "reserveTextureImageUnit_layer maxUnits (Some L2) requestor2
          \<lparr>globallyReservedUnits = {},
           perLayerReservedUnits = Mapping.update (Some L1) {0} Mapping.empty\<rparr>
        = (True, 0,
           \<lparr>globallyReservedUnits = {},
            perLayerReservedUnits =
              Mapping.update (Some L2) {0} (Mapping.update (Some L1) {0} Mapping.empty)\<rparr>,
           (case requestor2 of None \<Rightarrow> [] | Some r \<Rightarrow> [ReservedByLayer 0 L2 r]))"
    by (simp add: reserveTextureImageUnit_layer_def Let_def
        Mapping.default_def Mapping.lookup_default_def first_unused_empty [OF pos]
        update_update(1))
qed

text \<open>
  Layers 1 and 2 with four units; and two allocators that differ only in what layer 2
  holds give layer 1 the same unit.
\<close>

theorem distinct_layers_share_units_witness:
  "(1 :: nat) \<noteq> 2 \<and> (1 :: c_unsigned) \<le> 4 \<and>
   reserveTextureImageUnit_layer 4 (Some (1::nat)) None TerrainResources_init
     = (True, 0,
        \<lparr>globallyReservedUnits = {},
         perLayerReservedUnits = Mapping.update (Some 1) {0} Mapping.empty\<rparr>, []) \<and>
   reserveTextureImageUnit_layer 4 (Some (2::nat)) None
       \<lparr>globallyReservedUnits = {},
        perLayerReservedUnits = Mapping.update (Some 1) {0} Mapping.empty\<rparr>
     = (True, 0,
        \<lparr>globallyReservedUnits = {},
         perLayerReservedUnits =
           Mapping.update (Some 2) {0} (Mapping.update (Some 1) {0} Mapping.empty)\<rparr>, []) \<and>
   fst (snd (reserveTextureImageUnit_layer 4 (Some (1::nat)) None
       \<lparr>globallyReservedUnits = {0},
        perLayerReservedUnits = Mapping.update (Some 2) {1, 2} Mapping.empty\<rparr>))
   = fst (snd (reserveTextureImageUnit_layer 4 (Some (1::nat)) None
       \<lparr>globallyReservedUnits = {0}, perLayerReservedUnits = Mapping.empty\<rparr>))"
proof -
  let ?s = "\<lparr>globallyReservedUnits = {0 :: c_int},
        perLayerReservedUnits = Mapping.update (Some (2::nat)) {1, 2} Mapping.empty\<rparr>"
  let ?t = "\<lparr>globallyReservedUnits = {0 :: c_int},
        perLayerReservedUnits = Mapping.empty :: nat PerLayerReservedUnits\<rparr>"
  have h1: "(1 :: nat) \<noteq> 2 \<and> (1 :: c_unsigned) \<le> 4" by simp
  have h2: "globallyReservedUnits ?s = globallyReservedUnits ?t \<and>
    perLayerUnits ?s (Some 1) = perLayerUnits ?t (Some 1)"
    by (simp add: perLayerUnits_def Mapping.lookup_default_def)
  note t = distinct_layers_share_units [of ?s ?t 1 4 None 1 2 None None]
  from t [THEN conjunct2, THEN mp, OF h1] t [THEN conjunct1, THEN mp, OF h2] h1
  show ?thesis by simp
qed

subsection \<open>Off-limits units\<close>

lemma setTextureImageUnitOffLimits_eq:
  "setTextureImageUnitOffLimits u s =
     (if u \<notin> globallyReservedUnits s \<and> (\<forall>layer. u \<notin> perLayerUnits s layer)
      then (True, s\<lparr>globallyReservedUnits := insert u (globallyReservedUnits s)\<rparr>)
      else (False, s))"
proof -
  have "(\<exists>k \<in> Mapping.keys (perLayerReservedUnits s).
           u \<in> Mapping.lookup_default {} (perLayerReservedUnits s) k)
        \<longleftrightarrow> (\<exists>layer. u \<in> perLayerUnits s layer)"
    by (auto simp: perLayerUnits_def Mapping.lookup_default_def keys_is_none_rep
        Option.is_none_def split: option.splits)
  then show ?thesis by (auto simp: setTextureImageUnitOffLimits_def)
qed

text \<open>No reserve function returns a unit of \<^verbatim>\<open>_globallyReservedUnits\<close>.\<close>

lemma reserve_avoids_global:
  assumes "u \<in> globallyReservedUnits t"
  shows "fst (reserveTextureImageUnit m rq t) \<longrightarrow> fst (snd (reserveTextureImageUnit m rq t)) \<noteq> u"
    and "fst (reserveTextureImageUnit_layer m layer rq t)
           \<longrightarrow> fst (snd (reserveTextureImageUnit_layer m layer rq t)) \<noteq> u"
    and "fst (reserveTextureImageUnit_res this m r rq t)
           \<longrightarrow> r_unit (fst (snd (reserveTextureImageUnit_res this m r rq t))) \<noteq> u"
    and "fst (reserveTextureImageUnitForLayer this m r layer rq t)
           \<longrightarrow> r_unit (fst (snd (reserveTextureImageUnitForLayer this m r layer rq t))) \<noteq> u"
proof -
  show g: "fst (reserveTextureImageUnit m rq t)
             \<longrightarrow> fst (snd (reserveTextureImageUnit m rq t)) \<noteq> u" for m rq
  proof
    assume ok: "fst (reserveTextureImageUnit m rq t)"
    obtain b v t' msgs where e: "reserveTextureImageUnit m rq t = (b, v, t', msgs)"
      by (cases "reserveTextureImageUnit m rq t") auto
    with ok have "reserveTextureImageUnit m rq t = (True, v, t', msgs)" by simp
    from reserveTextureImageUnit_not_taken(1) [OF this] assms e
    show "fst (snd (reserveTextureImageUnit m rq t)) \<noteq> u" by auto
  qed
  show "fst (reserveTextureImageUnit_layer m layer rq t)
           \<longrightarrow> fst (snd (reserveTextureImageUnit_layer m layer rq t)) \<noteq> u"
  proof (cases layer)
    case None
    with g [of m rq] show ?thesis by (simp add: reserveTextureImageUnit_layer_def)
  next
    case (Some l)
    show ?thesis
    proof
      assume ok: "fst (reserveTextureImageUnit_layer m layer rq t)"
      obtain b v t' msgs where e: "reserveTextureImageUnit_layer m (Some l) rq t = (b, v, t', msgs)"
        by (cases "reserveTextureImageUnit_layer m (Some l) rq t") auto
      with ok Some have "reserveTextureImageUnit_layer m (Some l) rq t = (True, v, t', msgs)"
        by simp
      from reserveTextureImageUnit_layer_not_taken(1) [OF this] assms e Some
      show "fst (snd (reserveTextureImageUnit_layer m layer rq t)) \<noteq> u" by auto
    qed
  qed
  show "fst (reserveTextureImageUnit_res this m r rq t)
           \<longrightarrow> r_unit (fst (snd (reserveTextureImageUnit_res this m r rq t))) \<noteq> u"
  proof
    assume ok: "fst (reserveTextureImageUnit_res this m r rq t)"
    obtain b r' t' msgs where e: "reserveTextureImageUnit_res this m r rq t = (b, r', t', msgs)"
      by (cases "reserveTextureImageUnit_res this m r rq t") auto
    with ok have "reserveTextureImageUnit_res this m r rq t = (True, r', t', msgs)" by simp
    from reserveTextureImageUnit_res_not_taken(1) [OF this] assms e
    show "r_unit (fst (snd (reserveTextureImageUnit_res this m r rq t))) \<noteq> u" by auto
  qed
  show "fst (reserveTextureImageUnitForLayer this m r layer rq t)
           \<longrightarrow> r_unit (fst (snd (reserveTextureImageUnitForLayer this m r layer rq t))) \<noteq> u"
  proof (cases layer)
    case None
    then show ?thesis by (simp add: reserveTextureImageUnitForLayer_def)
  next
    case (Some l)
    show ?thesis
    proof
      assume ok: "fst (reserveTextureImageUnitForLayer this m r layer rq t)"
      obtain b r' t' msgs
        where e: "reserveTextureImageUnitForLayer this m r (Some l) rq t = (b, r', t', msgs)"
        by (cases "reserveTextureImageUnitForLayer this m r (Some l) rq t") auto
      with ok Some
      have "reserveTextureImageUnitForLayer this m r (Some l) rq t = (True, r', t', msgs)"
        by simp
      from reserveTextureImageUnitForLayer_not_taken(1) [OF this] assms e Some
      show "r_unit (fst (snd (reserveTextureImageUnitForLayer this m r layer rq t))) \<noteq> u"
        by auto
    qed
  qed
qed

text \<open>
  Every function keeps \<^verbatim>\<open>_globallyReservedUnits\<close> or adds to it, except the global
  release.
\<close>

lemma globallyReservedUnits_reserve:
  "globallyReservedUnits s \<subseteq> globallyReservedUnits (fst (snd (snd (reserveTextureImageUnit m rq s))))"
  "globallyReservedUnits s
     \<subseteq> globallyReservedUnits (fst (snd (snd (reserveTextureImageUnit_layer m layer rq s))))"
  "globallyReservedUnits s
     \<subseteq> globallyReservedUnits (fst (snd (snd (reserveTextureImageUnit_res this m r rq s))))"
  "globallyReservedUnits s
     \<subseteq> globallyReservedUnits (fst (snd (snd (reserveTextureImageUnitForLayer this m r layer rq s))))"
  by (auto simp: reserveTextureImageUnit_def reserveTextureImageUnit_layer_def
      reserveTextureImageUnit_res_def reserveTextureImageUnitForLayer_def Let_def
      split: option.splits)

lemma globallyReservedUnits_release_layer:
  "globallyReservedUnits (releaseTextureImageUnit_layer v layer s) =
     (if layer = None then globallyReservedUnits s - {v} else globallyReservedUnits s)"
  by (cases layer)
    (auto simp: releaseTextureImageUnit_layer_def releaseTextureImageUnit_def Let_def
      split: option.splits)

lemma exec_keeps_global:
  assumes "u \<in> globallyReservedUnits s" and "\<not> releases_global this u c"
  shows "u \<in> globallyReservedUnits (exec this c s)"
proof (cases c)
  case (Reserve m rq)
  with assms(1) globallyReservedUnits_reserve(1) [of s m rq] show ?thesis by auto
next
  case (ReserveLayer m layer rq)
  with assms(1) globallyReservedUnits_reserve(2) [of s m layer rq] show ?thesis by auto
next
  case (ReserveRes m r rq)
  with assms(1) globallyReservedUnits_reserve(3) [of s this m r rq] show ?thesis by auto
next
  case (ReserveResForLayer m r layer rq)
  with assms(1) globallyReservedUnits_reserve(4) [of s this m r layer rq] show ?thesis by auto
next
  case (Release v)
  with assms show ?thesis by (simp add: releaseTextureImageUnit_def)
next
  case (ReleaseLayer v layer)
  with assms show ?thesis by (auto simp: globallyReservedUnits_release_layer)
next
  case (SetOffLimits v)
  with assms(1) show ?thesis by (simp add: setTextureImageUnitOffLimits_eq)
next
  case (DropReservation r)
  with assms show ?thesis
    by (auto simp: TextureImageUnitReservation_dtor_def globallyReservedUnits_release_layer)
qed

lemma run_keeps_global:
  "u \<in> globallyReservedUnits s \<Longrightarrow> \<forall>c \<in> set cs. \<not> releases_global this u c
     \<Longrightarrow> u \<in> globallyReservedUnits (run this cs s)"
proof (induction cs arbitrary: s)
  case Nil
  then show ?case by simp
next
  case (Cons c cs)
  from Cons.prems have "u \<in> globallyReservedUnits (exec this c s)"
    by (simp add: exec_keeps_global)
  with Cons.IH [of "exec this c s"] Cons.prems(2) show ?case by simp
qed

text \<open>
  C4. \<^verbatim>\<open>setTextureImageUnitOffLimits(u)\<close> returns true exactly when \<open>u\<close> is neither in
  \<^verbatim>\<open>_globallyReservedUnits\<close> nor in the set of any layer. When it returns true, the
  allocator afterwards is the one before with \<open>u\<close> inserted into
  \<^verbatim>\<open>_globallyReservedUnits\<close>; when it returns false, the allocator is unchanged. After a
  successful call and any sequence of calls none of which runs the global release of \<open>u\<close>,
  the unit is still in \<^verbatim>\<open>_globallyReservedUnits\<close> and no reserve function, of either
  scope and in either form, returns it.
\<close>

theorem off_limits:
  "(fst (setTextureImageUnitOffLimits u s) \<longleftrightarrow>
      u \<notin> globallyReservedUnits s \<and> (\<forall>layer. u \<notin> perLayerUnits s layer)) \<and>
   (fst (setTextureImageUnitOffLimits u s) \<longrightarrow>
      snd (setTextureImageUnitOffLimits u s)
        = s\<lparr>globallyReservedUnits := insert u (globallyReservedUnits s)\<rparr>) \<and>
   (\<not> fst (setTextureImageUnitOffLimits u s) \<longrightarrow>
      snd (setTextureImageUnitOffLimits u s) = s) \<and>
   (fst (setTextureImageUnitOffLimits u s) \<and>
    (\<forall>c \<in> set calls. \<not> releases_global this u c) \<longrightarrow>
      u \<in> globallyReservedUnits (run this calls (snd (setTextureImageUnitOffLimits u s))) \<and>
      (fst (reserveTextureImageUnit m rq
              (run this calls (snd (setTextureImageUnitOffLimits u s)))) \<longrightarrow>
         fst (snd (reserveTextureImageUnit m rq
              (run this calls (snd (setTextureImageUnitOffLimits u s))))) \<noteq> u) \<and>
      (fst (reserveTextureImageUnit_layer m layer rq
              (run this calls (snd (setTextureImageUnitOffLimits u s)))) \<longrightarrow>
         fst (snd (reserveTextureImageUnit_layer m layer rq
              (run this calls (snd (setTextureImageUnitOffLimits u s))))) \<noteq> u) \<and>
      (fst (reserveTextureImageUnit_res this m r rq
              (run this calls (snd (setTextureImageUnitOffLimits u s)))) \<longrightarrow>
         r_unit (fst (snd (reserveTextureImageUnit_res this m r rq
              (run this calls (snd (setTextureImageUnitOffLimits u s)))))) \<noteq> u) \<and>
      (fst (reserveTextureImageUnitForLayer this m r layer rq
              (run this calls (snd (setTextureImageUnitOffLimits u s)))) \<longrightarrow>
         r_unit (fst (snd (reserveTextureImageUnitForLayer this m r layer rq
              (run this calls (snd (setTextureImageUnitOffLimits u s)))))) \<noteq> u))"
proof (intro conjI)
  show "fst (setTextureImageUnitOffLimits u s) \<longleftrightarrow>
      u \<notin> globallyReservedUnits s \<and> (\<forall>layer. u \<notin> perLayerUnits s layer)"
    by (simp add: setTextureImageUnitOffLimits_eq)
  show "fst (setTextureImageUnitOffLimits u s) \<longrightarrow>
      snd (setTextureImageUnitOffLimits u s)
        = s\<lparr>globallyReservedUnits := insert u (globallyReservedUnits s)\<rparr>"
    by (simp add: setTextureImageUnitOffLimits_eq)
  show "\<not> fst (setTextureImageUnitOffLimits u s) \<longrightarrow>
      snd (setTextureImageUnitOffLimits u s) = s"
    by (simp add: setTextureImageUnitOffLimits_eq)
  let ?t = "run this calls (snd (setTextureImageUnitOffLimits u s))"
  show "fst (setTextureImageUnitOffLimits u s) \<and>
    (\<forall>c \<in> set calls. \<not> releases_global this u c) \<longrightarrow>
      u \<in> globallyReservedUnits ?t \<and>
      (fst (reserveTextureImageUnit m rq ?t) \<longrightarrow>
         fst (snd (reserveTextureImageUnit m rq ?t)) \<noteq> u) \<and>
      (fst (reserveTextureImageUnit_layer m layer rq ?t) \<longrightarrow>
         fst (snd (reserveTextureImageUnit_layer m layer rq ?t)) \<noteq> u) \<and>
      (fst (reserveTextureImageUnit_res this m r rq ?t) \<longrightarrow>
         r_unit (fst (snd (reserveTextureImageUnit_res this m r rq ?t))) \<noteq> u) \<and>
      (fst (reserveTextureImageUnitForLayer this m r layer rq ?t) \<longrightarrow>
         r_unit (fst (snd (reserveTextureImageUnitForLayer this m r layer rq ?t))) \<noteq> u)"
  proof
    assume a: "fst (setTextureImageUnitOffLimits u s) \<and>
      (\<forall>c \<in> set calls. \<not> releases_global this u c)"
    then have "u \<in> globallyReservedUnits (snd (setTextureImageUnitOffLimits u s))"
      by (simp add: setTextureImageUnitOffLimits_eq split: if_splits)
    with a have in_t: "u \<in> globallyReservedUnits ?t"
      by (simp add: run_keeps_global)
    show "u \<in> globallyReservedUnits ?t \<and>
      (fst (reserveTextureImageUnit m rq ?t) \<longrightarrow>
         fst (snd (reserveTextureImageUnit m rq ?t)) \<noteq> u) \<and>
      (fst (reserveTextureImageUnit_layer m layer rq ?t) \<longrightarrow>
         fst (snd (reserveTextureImageUnit_layer m layer rq ?t)) \<noteq> u) \<and>
      (fst (reserveTextureImageUnit_res this m r rq ?t) \<longrightarrow>
         r_unit (fst (snd (reserveTextureImageUnit_res this m r rq ?t))) \<noteq> u) \<and>
      (fst (reserveTextureImageUnitForLayer this m r layer rq ?t) \<longrightarrow>
         r_unit (fst (snd (reserveTextureImageUnitForLayer this m r layer rq ?t))) \<noteq> u)"
      by (intro conjI in_t reserve_avoids_global(1) [OF in_t] reserve_avoids_global(2) [OF in_t]
          reserve_avoids_global(3) [OF in_t] reserve_avoids_global(4) [OF in_t])
  qed
qed

text \<open>
  Unit 0 reserved globally, unit 1 under layer 7, four units. Unit 2 is free and is marked
  off limits; after a global reserve and a release of layer 7's unit the next global
  reserve does not return 2. Unit 1 is held by layer 7: marking it fails and changes
  nothing.
\<close>

theorem off_limits_witness:
  "fst (setTextureImageUnitOffLimits 2
         \<lparr>globallyReservedUnits = {0},
          perLayerReservedUnits = Mapping.update (Some (7::nat)) {1} Mapping.empty\<rparr>) \<and>
   \<not> releases_global () 2 (Reserve 4 None :: (nat, unit) call) \<and>
   \<not> releases_global () 2 (ReleaseLayer 1 (Some (7::nat)) :: (nat, unit) call) \<and>
   2 \<in> globallyReservedUnits
         (run () [Reserve 4 None, ReleaseLayer 1 (Some (7::nat))]
           (snd (setTextureImageUnitOffLimits 2
             \<lparr>globallyReservedUnits = {0},
              perLayerReservedUnits = Mapping.update (Some (7::nat)) {1} Mapping.empty\<rparr>))) \<and>
   fst (reserveTextureImageUnit 4 None
         (run () [Reserve 4 None, ReleaseLayer 1 (Some (7::nat))]
           (snd (setTextureImageUnitOffLimits 2
             \<lparr>globallyReservedUnits = {0},
              perLayerReservedUnits = Mapping.update (Some (7::nat)) {1} Mapping.empty\<rparr>)))) \<and>
   fst (snd (reserveTextureImageUnit 4 None
         (run () [Reserve 4 None, ReleaseLayer 1 (Some (7::nat))]
           (snd (setTextureImageUnitOffLimits 2
             \<lparr>globallyReservedUnits = {0},
              perLayerReservedUnits = Mapping.update (Some (7::nat)) {1} Mapping.empty\<rparr>)))))
     \<noteq> 2 \<and>
   \<not> fst (setTextureImageUnitOffLimits 1
         \<lparr>globallyReservedUnits = {0},
          perLayerReservedUnits = Mapping.update (Some (7::nat)) {1} Mapping.empty\<rparr>) \<and>
   snd (setTextureImageUnitOffLimits 1
         \<lparr>globallyReservedUnits = {0},
          perLayerReservedUnits = Mapping.update (Some (7::nat)) {1} Mapping.empty\<rparr>)
     = \<lparr>globallyReservedUnits = {0},
        perLayerReservedUnits = Mapping.update (Some (7::nat)) {1} Mapping.empty\<rparr>"
proof -
  let ?s = "\<lparr>globallyReservedUnits = {0 :: c_int},
          perLayerReservedUnits = Mapping.update (Some (7::nat)) {1} Mapping.empty\<rparr>"
  let ?cs = "[Reserve 4 None, ReleaseLayer 1 (Some (7::nat))] :: (nat, unit) call list"
  let ?t = "run () ?cs (snd (setTextureImageUnitOffLimits 2 ?s))"
  have h: "fst (setTextureImageUnitOffLimits 2 ?s) \<and>
      (\<forall>c \<in> set ?cs. \<not> releases_global () 2 c)"
    by (simp add: setTextureImageUnitOffLimits_def Mapping.lookup_default_def)
  have n: "\<not> fst (setTextureImageUnitOffLimits 1 ?s)"
    by (simp add: setTextureImageUnitOffLimits_def Mapping.lookup_default_def)
  note t = off_limits [of 2 ?s ?cs "()" 4 None None TextureImageUnitReservation_init]
  note t' = off_limits [of 1 ?s ?cs "()" 4 None None TextureImageUnitReservation_init]
  note c = t [THEN conjunct2, THEN conjunct2, THEN conjunct2, THEN mp, OF h]
  have 1: "2 \<in> globallyReservedUnits ?t"
    by (rule c [THEN conjunct1])
  have ok: "fst (reserveTextureImageUnit 4 None ?t)"
    by (simp add: eval_simps)
  have 2: "fst (snd (reserveTextureImageUnit 4 None ?t)) \<noteq> 2"
    by (rule c [THEN conjunct2, THEN conjunct1, THEN mp, OF ok])
  have 3: "snd (setTextureImageUnitOffLimits 1 ?s) = ?s"
    by (rule t' [THEN conjunct2, THEN conjunct2, THEN conjunct1, THEN mp, OF n])
  from h have h1: "fst (setTextureImageUnitOffLimits 2 ?s)"
    by (rule conjunct1)
  have h2: "\<not> releases_global () 2 (Reserve 4 None :: (nat, unit) call)"
    and h3: "\<not> releases_global () 2 (ReleaseLayer 1 (Some (7::nat)) :: (nat, unit) call)"
    by simp_all
  show ?thesis by (intro conjI; fact)
qed

text \<open>
  C10. \<^verbatim>\<open>setTextureImageUnitOffLimits\<close> does not read \<^verbatim>\<open>maxUnits\<close> and compares its
  argument with nothing but the contents of the two containers: for every \<^verbatim>\<open>int\<close>
  \<open>u\<close>, negative or beyond any number of units, if \<open>u\<close> is in neither
  \<^verbatim>\<open>_globallyReservedUnits\<close> nor the set of any layer, the call returns true and inserts
  \<open>u\<close> into \<^verbatim>\<open>_globallyReservedUnits\<close>.
\<close>

theorem off_limits_any_unit:
  "u \<notin> globallyReservedUnits s \<Longrightarrow> (\<forall>layer. u \<notin> perLayerUnits s layer) \<Longrightarrow>
     setTextureImageUnitOffLimits u s
       = (True, s\<lparr>globallyReservedUnits := insert u (globallyReservedUnits s)\<rparr>)"
  by (simp add: setTextureImageUnitOffLimits_eq)

text \<open>
  On the allocator of the previous example the units \<open>-5\<close> and \<open>1000\<close> are accepted,
  although a reserve with four units only returns units below 4.
\<close>

theorem off_limits_any_unit_witness:
  "sint (- 5 :: c_int) < 0 \<and>
   setTextureImageUnitOffLimits (- 5)
       \<lparr>globallyReservedUnits = {0},
        perLayerReservedUnits = Mapping.update (Some (7::nat)) {1} Mapping.empty\<rparr>
     = (True,
        \<lparr>globallyReservedUnits = {- 5, 0},
         perLayerReservedUnits = Mapping.update (Some (7::nat)) {1} Mapping.empty\<rparr>) \<and>
   \<not> (1000 :: c_int) < 4 \<and>
   setTextureImageUnitOffLimits 1000
       \<lparr>globallyReservedUnits = {0},
        perLayerReservedUnits = Mapping.update (Some (7::nat)) {1} Mapping.empty\<rparr>
     = (True,
        \<lparr>globallyReservedUnits = {1000, 0},
         perLayerReservedUnits = Mapping.update (Some (7::nat)) {1} Mapping.empty\<rparr>)"
proof -
  let ?s = "\<lparr>globallyReservedUnits = {0 :: c_int},
          perLayerReservedUnits = Mapping.update (Some (7::nat)) {1} Mapping.empty\<rparr>"
  have p: "perLayerUnits ?s layer = (if layer = Some 7 then {1} else {})" for layer
    by (simp add: perLayerUnits_def Mapping.lookup_default_def)
  have a: "- 5 \<notin> globallyReservedUnits ?s" and b: "\<forall>layer. - 5 \<notin> perLayerUnits ?s layer"
    and c: "1000 \<notin> globallyReservedUnits ?s" and d: "\<forall>layer. 1000 \<notin> perLayerUnits ?s layer"
    by (simp_all add: p)
  from off_limits_any_unit [OF a b] off_limits_any_unit [OF c d]
  show ?thesis by simp
qed

subsection \<open>Failure and the range of the returned unit\<close>

text \<open>
  An index below \<open>maxUnits\<close> read as an \<^verbatim>\<open>int\<close>: when \<open>maxUnits\<close> is at most \<open>2^31\<close>
  the conversion keeps the value.
\<close>

lemma signed_reading:
  fixes u m :: "32 word"
  assumes "u < m" and "unat m \<le> 2 ^ 31"
  shows "0 \<le> sint u \<and> sint u < uint m"
proof -
  from assms(1) have nlt: "unat u < unat m" by (simp only: word_less_nat_alt)
  from assms(2) have "unat m \<le> 2147483648" by simp
  with nlt have "unat u < 2147483648" by linarith
  then have "int (unat u) < 2147483648" by linarith
  then have "uint u < 2147483648" by (simp only: uint_nat)
  then have b: "uint u < 2 ^ 31" by simp
  have ge: "0 \<le> uint u" by (rule uint_ge_0)
  then have "- 2147483648 \<le> uint u" by linarith
  then have "- (2 ^ 31) \<le> uint u" by simp
  from this b have "signed_take_bit 31 (uint u) = uint u"
    by (rule signed_take_bit_int_eq_self)
  then have e: "sint u = uint u" by (simp add: sint_uint)
  from nlt have "int (unat u) < int (unat m)" by linarith
  then have "uint u < uint m" by (simp only: uint_nat)
  with e ge show ?thesis by simp
qed

lemma scan_outcome:
  assumes "p = (case first_unused T m 0 of Some i \<Rightarrow> (True, i) | None \<Rightarrow> (False, - 1))"
  shows "(\<not> fst p \<longleftrightarrow> (\<forall>i. i < m \<longrightarrow> i \<in> T)) \<and>
         (\<not> fst p \<longrightarrow> snd p = - 1) \<and>
         (fst p \<longrightarrow> snd p < m \<and>
            (unat m \<le> 2 ^ 31 \<longrightarrow> 0 \<le> sint (snd p) \<and> sint (snd p) < uint m))"
proof (cases "first_unused T m 0")
  case None
  with assms first_unused_0_None [of T m] show ?thesis by simp
next
  case (Some i)
  from first_unused_0_Some [OF Some] have "i < m" and "i \<notin> T" by simp_all
  moreover from Some have "first_unused T m 0 \<noteq> None" by simp
  then have "\<not> (\<forall>j. j < m \<longrightarrow> j \<in> T)" by (simp add: first_unused_0_None)
  moreover have "unat m \<le> 2 ^ 31 \<longrightarrow> 0 \<le> sint i \<and> sint i < uint m"
    using signed_reading [OF \<open>i < m\<close>] by blast
  ultimately show ?thesis using assms Some by simp
qed

lemma reserveTextureImageUnit_returns:
  "(fst (reserveTextureImageUnit m rq s), fst (snd (reserveTextureImageUnit m rq s))) =
   (case first_unused (globallyReservedUnits s \<union> (\<Union>layer. perLayerUnits s layer)) m 0 of
      Some i \<Rightarrow> (True, i) | None \<Rightarrow> (False, - 1))"
  by (simp add: reserveTextureImageUnit_def taken_global_eq split: option.splits)

lemma reserveTextureImageUnit_res_returns:
  "(fst (reserveTextureImageUnit_res this m r rq s),
    r_unit (fst (snd (reserveTextureImageUnit_res this m r rq s)))) =
   (case first_unused (globallyReservedUnits s \<union> (\<Union>layer. perLayerUnits s layer)) m 0 of
      Some i \<Rightarrow> (True, i) | None \<Rightarrow> (False, - 1))"
  by (simp add: reserveTextureImageUnit_res_def taken_global_eq split: option.splits)

lemma reserveTextureImageUnitForLayer_returns:
  "(fst (reserveTextureImageUnitForLayer this m r (Some l) rq s),
    r_unit (fst (snd (reserveTextureImageUnitForLayer this m r (Some l) rq s)))) =
   (case first_unused (globallyReservedUnits s \<union> perLayerUnits s (Some l)) m 0 of
      Some i \<Rightarrow> (True, i) | None \<Rightarrow> (False, - 1))"
  by (simp add: reserveTextureImageUnitForLayer_def Let_def perLayerUnits_def
      lookup_default_after_default split: option.splits)

text \<open>
  C5, as the code has it. A reserve call that reaches its scan fails exactly when every
  index below \<open>maxUnits\<close> is in the taken set of its scope, and then leaves \<open>-1\<close> in the
  out-parameter (the raw forms) or in the unit of the reservation (the handle forms). These
  calls are the two global forms, the raw layer-bound form (which for a null layer is the
  raw global form) and the handle layer-bound form for a non-null layer. The handle
  layer-bound form with a null layer returns false whatever the taken set is. A successful
  reserve returns an index below \<open>maxUnits\<close>; read as the \<^verbatim>\<open>int\<close> that it is stored in, the
  unit \<open>u\<close> satisfies \<open>0 \<le> u < maxUnits\<close> when \<open>maxUnits\<close> is at most \<open>2^31\<close>.
\<close>

theorem reserve_fails_iff_exhausted:
  "((\<not> fst (reserveTextureImageUnit maxUnits rq s) \<longleftrightarrow>
       (\<forall>i. i < maxUnits \<longrightarrow>
          i \<in> globallyReservedUnits s \<union> (\<Union>layer. perLayerUnits s layer))) \<and>
    (\<not> fst (reserveTextureImageUnit maxUnits rq s) \<longrightarrow>
       fst (snd (reserveTextureImageUnit maxUnits rq s)) = - 1) \<and>
    (fst (reserveTextureImageUnit maxUnits rq s) \<longrightarrow>
       fst (snd (reserveTextureImageUnit maxUnits rq s)) < maxUnits \<and>
       (unat maxUnits \<le> 2 ^ 31 \<longrightarrow>
          0 \<le> sint (fst (snd (reserveTextureImageUnit maxUnits rq s))) \<and>
          sint (fst (snd (reserveTextureImageUnit maxUnits rq s))) < uint maxUnits))) \<and>
   ((\<not> fst (reserveTextureImageUnit_res this maxUnits r rq s) \<longleftrightarrow>
       (\<forall>i. i < maxUnits \<longrightarrow>
          i \<in> globallyReservedUnits s \<union> (\<Union>layer. perLayerUnits s layer))) \<and>
    (\<not> fst (reserveTextureImageUnit_res this maxUnits r rq s) \<longrightarrow>
       r_unit (fst (snd (reserveTextureImageUnit_res this maxUnits r rq s))) = - 1) \<and>
    (fst (reserveTextureImageUnit_res this maxUnits r rq s) \<longrightarrow>
       r_unit (fst (snd (reserveTextureImageUnit_res this maxUnits r rq s))) < maxUnits \<and>
       (unat maxUnits \<le> 2 ^ 31 \<longrightarrow>
          0 \<le> sint (r_unit (fst (snd (reserveTextureImageUnit_res this maxUnits r rq s)))) \<and>
          sint (r_unit (fst (snd (reserveTextureImageUnit_res this maxUnits r rq s))))
            < uint maxUnits))) \<and>
   ((\<not> fst (reserveTextureImageUnit_layer maxUnits (Some l) rq s) \<longleftrightarrow>
       (\<forall>i. i < maxUnits \<longrightarrow> i \<in> globallyReservedUnits s \<union> perLayerUnits s (Some l))) \<and>
    (\<not> fst (reserveTextureImageUnit_layer maxUnits (Some l) rq s) \<longrightarrow>
       fst (snd (reserveTextureImageUnit_layer maxUnits (Some l) rq s)) = - 1) \<and>
    (fst (reserveTextureImageUnit_layer maxUnits (Some l) rq s) \<longrightarrow>
       fst (snd (reserveTextureImageUnit_layer maxUnits (Some l) rq s)) < maxUnits \<and>
       (unat maxUnits \<le> 2 ^ 31 \<longrightarrow>
          0 \<le> sint (fst (snd (reserveTextureImageUnit_layer maxUnits (Some l) rq s))) \<and>
          sint (fst (snd (reserveTextureImageUnit_layer maxUnits (Some l) rq s)))
            < uint maxUnits))) \<and>
   ((\<not> fst (reserveTextureImageUnitForLayer this maxUnits r (Some l) rq s) \<longleftrightarrow>
       (\<forall>i. i < maxUnits \<longrightarrow> i \<in> globallyReservedUnits s \<union> perLayerUnits s (Some l))) \<and>
    (\<not> fst (reserveTextureImageUnitForLayer this maxUnits r (Some l) rq s) \<longrightarrow>
       r_unit (fst (snd (reserveTextureImageUnitForLayer this maxUnits r (Some l) rq s))) = - 1) \<and>
    (fst (reserveTextureImageUnitForLayer this maxUnits r (Some l) rq s) \<longrightarrow>
       r_unit (fst (snd (reserveTextureImageUnitForLayer this maxUnits r (Some l) rq s)))
         < maxUnits \<and>
       (unat maxUnits \<le> 2 ^ 31 \<longrightarrow>
          0 \<le> sint (r_unit (fst (snd
                 (reserveTextureImageUnitForLayer this maxUnits r (Some l) rq s)))) \<and>
          sint (r_unit (fst (snd
                 (reserveTextureImageUnitForLayer this maxUnits r (Some l) rq s))))
            < uint maxUnits))) \<and>
   reserveTextureImageUnit_layer maxUnits None rq s = reserveTextureImageUnit maxUnits rq s \<and>
   \<not> fst (reserveTextureImageUnitForLayer this maxUnits r None rq s)"
proof -
  note g = scan_outcome [OF reserveTextureImageUnit_returns, of maxUnits rq s,
      unfolded fst_conv snd_conv]
  note gr = scan_outcome [OF reserveTextureImageUnit_res_returns, of this maxUnits r rq s,
      unfolded fst_conv snd_conv]
  note l = scan_outcome [OF reserveTextureImageUnit_layer_returns, of maxUnits l rq s,
      unfolded fst_conv snd_conv]
  note lr = scan_outcome [OF reserveTextureImageUnitForLayer_returns, of this maxUnits r l rq s,
      unfolded fst_conv snd_conv]
  have n: "reserveTextureImageUnit_layer maxUnits None rq s = reserveTextureImageUnit maxUnits rq s"
    by (simp add: reserveTextureImageUnit_layer_def)
  have nr: "\<not> fst (reserveTextureImageUnitForLayer this maxUnits r None rq s)"
    by (simp add: reserveTextureImageUnitForLayer_def)
  show ?thesis
    by (rule conjI [OF g conjI [OF gr conjI [OF l conjI [OF lr conjI [OF n nr]]]]])
qed

text \<open>
  Unit 0 reserved globally and unit 1 under layer 7. With four units the global reserve
  succeeds and its unit, read as an \<^verbatim>\<open>int\<close>, lies in \<open>[0, 4)\<close>; with one unit it fails,
  the only index being taken, and leaves \<open>-1\<close>.
\<close>

theorem reserve_fails_iff_exhausted_witness:
  "fst (reserveTextureImageUnit 4 None
         \<lparr>globallyReservedUnits = {0},
          perLayerReservedUnits = Mapping.update (Some (7::nat)) {1} Mapping.empty\<rparr>) \<and>
   unat (4 :: c_unsigned) \<le> 2 ^ 31 \<and>
   0 \<le> sint (fst (snd (reserveTextureImageUnit 4 None
         \<lparr>globallyReservedUnits = {0},
          perLayerReservedUnits = Mapping.update (Some (7::nat)) {1} Mapping.empty\<rparr>))) \<and>
   sint (fst (snd (reserveTextureImageUnit 4 None
         \<lparr>globallyReservedUnits = {0},
          perLayerReservedUnits = Mapping.update (Some (7::nat)) {1} Mapping.empty\<rparr>)))
     < uint (4 :: c_unsigned) \<and>
   \<not> fst (reserveTextureImageUnit 1 None
         \<lparr>globallyReservedUnits = {0},
          perLayerReservedUnits = Mapping.update (Some (7::nat)) {1} Mapping.empty\<rparr>) \<and>
   fst (snd (reserveTextureImageUnit 1 None
         \<lparr>globallyReservedUnits = {0},
          perLayerReservedUnits = Mapping.update (Some (7::nat)) {1} Mapping.empty\<rparr>)) = - 1"
proof -
  let ?s = "\<lparr>globallyReservedUnits = {0 :: c_int},
          perLayerReservedUnits = Mapping.update (Some (7::nat)) {1} Mapping.empty\<rparr>"
  have h1: "fst (reserveTextureImageUnit 4 None ?s)"
    by (simp add: eval_simps)
  have h2: "unat (4 :: c_unsigned) \<le> 2 ^ 31"
    by simp
  have h3: "\<not> fst (reserveTextureImageUnit 1 None ?s)"
    by (simp add: eval_simps)
  note t = reserve_fails_iff_exhausted [of 4 None ?s, THEN conjunct1]
  note t' = reserve_fails_iff_exhausted [of 1 None ?s, THEN conjunct1]
  note c = t [THEN conjunct2, THEN conjunct2, THEN mp, OF h1, THEN conjunct2, THEN mp, OF h2]
  have 1: "0 \<le> sint (fst (snd (reserveTextureImageUnit 4 None ?s)))"
    by (rule c [THEN conjunct1])
  have 2: "sint (fst (snd (reserveTextureImageUnit 4 None ?s))) < uint (4 :: c_unsigned)"
    by (rule c [THEN conjunct2])
  have 3: "fst (snd (reserveTextureImageUnit 1 None ?s)) = - 1"
    by (rule t' [THEN conjunct2, THEN conjunct1, THEN mp, OF h3])
  show ?thesis by (intro conjI; fact)
qed

text \<open>
  The scan over \<open>2^31 + 1\<close> units when exactly the non-negative \<^verbatim>\<open>int\<close>s are taken stops
  at the index \<open>2^31\<close>.
\<close>

lemma first_unused_beyond_int_max:
  "first_unused {0..2147483647} 2147483649 0 = Some (2147483648 :: 32 word)"
proof -
  have "first_unused {0..2147483647} 2147483649 0 \<noteq> (None :: 32 word option)"
  proof
    assume "first_unused {0..2147483647} 2147483649 0 = (None :: 32 word option)"
    then have "(2147483648 :: 32 word) < 2147483649
                 \<longrightarrow> (2147483648 :: 32 word) \<in> {0..2147483647}"
      unfolding first_unused_0_None by blast
    then show False by simp
  qed
  then obtain u :: "32 word" where u: "first_unused {0..2147483647} 2147483649 0 = Some u"
    by auto
  from first_unused_0_Some [OF u] have "u < 2147483649" and "\<not> u \<le> 2147483647" by simp_all
  then have "u = 2147483648" by unat_arith
  with u show ?thesis by simp
qed

text \<open>
  C5 as stated fails in two places. On a fresh allocator with four units the handle
  layer-bound reserve with a null layer returns false although index 0 is not taken. And
  when \<open>maxUnits\<close> is \<open>2^31 + 1\<close> and the units \<open>0\<close> to \<open>2^31 - 1\<close> are all reserved
  globally, the global reserve succeeds at the index \<open>2^31\<close>, which as an \<^verbatim>\<open>int\<close> is
  \<open>-2^31\<close>, a negative unit.
\<close>

theorem reserve_fails_iff_exhausted_counterexample:
  "\<not> fst (reserveTextureImageUnitForLayer () 4 TextureImageUnitReservation_init None None
           (TerrainResources_init :: nat TerrainResources)) \<and>
   (0 :: c_int) < 4 \<and>
   0 \<notin> taken_global (TerrainResources_init :: nat TerrainResources) \<and>
   fst (reserveTextureImageUnit 2147483649 None
         \<lparr>globallyReservedUnits = {0..2147483647},
          perLayerReservedUnits = (Mapping.empty :: nat PerLayerReservedUnits)\<rparr>) \<and>
   sint (fst (snd (reserveTextureImageUnit 2147483649 None
         \<lparr>globallyReservedUnits = {0..2147483647},
          perLayerReservedUnits = (Mapping.empty :: nat PerLayerReservedUnits)\<rparr>)))
     = - 2147483648"
proof -
  let ?s = "\<lparr>globallyReservedUnits = {0..2147483647 :: c_int},
          perLayerReservedUnits = (Mapping.empty :: nat PerLayerReservedUnits)\<rparr>"
  have "taken_global ?s = {0..2147483647}"
    by (simp add: taken_global_def)
  then have "reserveTextureImageUnit 2147483649 None ?s
      = (True, 2147483648, ?s\<lparr>globallyReservedUnits := insert 2147483648 {0..2147483647}\<rparr>, [])"
    by (simp add: reserveTextureImageUnit_def first_unused_beyond_int_max)
  then have "fst (reserveTextureImageUnit 2147483649 None ?s)"
    and "sint (fst (snd (reserveTextureImageUnit 2147483649 None ?s))) = - 2147483648"
    by simp_all
  moreover
  have "\<not> fst (reserveTextureImageUnitForLayer () 4 TextureImageUnitReservation_init None None
           (TerrainResources_init :: nat TerrainResources))"
    by (simp add: reserveTextureImageUnitForLayer_def)
  moreover
  have "(0 :: c_int) < 4" by simp
  moreover
  have "0 \<notin> taken_global (TerrainResources_init :: nat TerrainResources)"
    by (simp add: taken_global_def TerrainResources_init_def)
  ultimately show ?thesis by (intro conjI)
qed

subsection \<open>Releasing\<close>

text \<open>
  A reserve function gives the null pointer no entry: the raw layer-bound form hands a null
  layer over to the global form and the handle form rejects it, both before
  \<^verbatim>\<open>_perLayerReservedUnits[layer]\<close> is reached.
\<close>

lemma lookup_None_reserve:
  "Mapping.lookup (perLayerReservedUnits (fst (snd (snd (reserveTextureImageUnit m rq s))))) None
     = Mapping.lookup (perLayerReservedUnits s) None"
  "Mapping.lookup
     (perLayerReservedUnits (fst (snd (snd (reserveTextureImageUnit_layer m layer rq s))))) None
     = Mapping.lookup (perLayerReservedUnits s) None"
  "Mapping.lookup
     (perLayerReservedUnits (fst (snd (snd (reserveTextureImageUnit_res this m r rq s))))) None
     = Mapping.lookup (perLayerReservedUnits s) None"
  "Mapping.lookup
     (perLayerReservedUnits
        (fst (snd (snd (reserveTextureImageUnitForLayer this m r layer rq s))))) None
     = Mapping.lookup (perLayerReservedUnits s) None"
  by (auto simp: reserveTextureImageUnit_def reserveTextureImageUnit_layer_def
      reserveTextureImageUnit_res_def reserveTextureImageUnitForLayer_def Let_def
      lookup_after_default split: option.splits)

lemma lookup_None_release_layer:
  assumes "Mapping.lookup (perLayerReservedUnits s) None = None"
  shows "Mapping.lookup (perLayerReservedUnits (releaseTextureImageUnit_layer v layer s)) None
           = None"
proof (cases layer)
  case None
  with assms show ?thesis
    by (simp add: releaseTextureImageUnit_layer_def releaseTextureImageUnit_def)
next
  case (Some l)
  with assms show ?thesis
    by (simp add: releaseTextureImageUnit_layer_def Let_def split: option.splits)
qed

lemma exec_keeps_null_unmapped:
  assumes "Mapping.lookup (perLayerReservedUnits s) None = None"
  shows "Mapping.lookup (perLayerReservedUnits (exec this c s)) None = None"
proof (cases c)
  case (Release v)
  with assms show ?thesis by (simp add: releaseTextureImageUnit_def)
next
  case (ReleaseLayer v layer)
  with assms show ?thesis by (simp add: lookup_None_release_layer)
next
  case (SetOffLimits v)
  with assms show ?thesis by (simp add: setTextureImageUnitOffLimits_eq)
next
  case (DropReservation r)
  with assms show ?thesis
    by (simp add: TextureImageUnitReservation_dtor_def lookup_None_release_layer)
qed (use assms in \<open>simp_all add: lookup_None_reserve\<close>)

lemma run_keeps_null_unmapped:
  "Mapping.lookup (perLayerReservedUnits s) None = None
     \<Longrightarrow> Mapping.lookup (perLayerReservedUnits (run this cs s)) None = None"
proof (induction cs arbitrary: s)
  case Nil
  then show ?case by simp
next
  case (Cons c cs)
  from Cons.IH [OF exec_keeps_null_unmapped [OF Cons.prems]] show ?case by simp
qed

lemma release_null_layer_unmapped:
  "Mapping.lookup (perLayerReservedUnits s) None = None
     \<Longrightarrow> releaseTextureImageUnit_layer unit None s = releaseTextureImageUnit unit s"
  by (simp add: releaseTextureImageUnit_layer_def releaseTextureImageUnit_def)

text \<open>
  C6. The layer-bound release with a null layer ends in the same allocator as the global
  release of the unit: the unit is removed from \<^verbatim>\<open>_globallyReservedUnits\<close> and
  \<^verbatim>\<open>_perLayerReservedUnits\<close> is unchanged. After the global release the function goes on
  to look the null pointer up in \<^verbatim>\<open>_perLayerReservedUnits\<close>; the two results are equal
  whenever the null pointer has no entry there, and that is so in every allocator that a
  sequence of calls produces from a new one.
\<close>

theorem release_null_layer_is_global_release:
  "(Mapping.lookup (perLayerReservedUnits (s :: 'l TerrainResources)) None = None \<longrightarrow>
      releaseTextureImageUnit_layer unit None s = releaseTextureImageUnit unit s) \<and>
   Mapping.lookup
     (perLayerReservedUnits
        (run this (calls :: ('l, 'a) call list) TerrainResources_init)) None = None \<and>
   releaseTextureImageUnit_layer unit None (run this calls TerrainResources_init)
     = releaseTextureImageUnit unit (run this calls TerrainResources_init) \<and>
   globallyReservedUnits (releaseTextureImageUnit unit s) = globallyReservedUnits s - {unit} \<and>
   perLayerReservedUnits (releaseTextureImageUnit unit s) = perLayerReservedUnits s"
proof -
  have i: "Mapping.lookup (perLayerReservedUnits
             (TerrainResources_init :: 'l TerrainResources)) None = None"
    by (simp add: TerrainResources_init_def)
  note r = run_keeps_null_unmapped [OF i, of this calls]
  show ?thesis
    by (intro conjI impI release_null_layer_unmapped r)
       (simp_all add: releaseTextureImageUnit_def)
qed

text \<open>
  A new allocator after a layer-bound reserve for layer 7 and a global reserve, with four
  units, holds unit 0 under layer 7 and unit 1 globally; releasing unit 1 with a null layer
  gives what the global release of unit 1 gives.
\<close>

theorem release_null_layer_is_global_release_witness:
  "Mapping.lookup (perLayerReservedUnits
       \<lparr>globallyReservedUnits = {1},
        perLayerReservedUnits = Mapping.update (Some (7::nat)) {0} Mapping.empty\<rparr>) None = None \<and>
   releaseTextureImageUnit_layer 1 None
       \<lparr>globallyReservedUnits = {1},
        perLayerReservedUnits = Mapping.update (Some (7::nat)) {0} Mapping.empty\<rparr>
     = releaseTextureImageUnit 1
       \<lparr>globallyReservedUnits = {1},
        perLayerReservedUnits = Mapping.update (Some (7::nat)) {0} Mapping.empty\<rparr> \<and>
   releaseTextureImageUnit_layer 1 None
       (run () [ReserveLayer 4 (Some (7::nat)) None, Reserve 4 None] TerrainResources_init)
     = releaseTextureImageUnit 1
       (run () [ReserveLayer 4 (Some (7::nat)) None, Reserve 4 None] TerrainResources_init)"
proof -
  let ?s = "\<lparr>globallyReservedUnits = {1 :: c_int},
        perLayerReservedUnits = Mapping.update (Some (7::nat)) {0} Mapping.empty\<rparr>"
  let ?cs = "[ReserveLayer 4 (Some (7::nat)) None, Reserve 4 None] :: (nat, unit) call list"
  have h: "Mapping.lookup (perLayerReservedUnits ?s) None = None"
    by simp
  note t = release_null_layer_is_global_release [of ?s 1 "()" ?cs]
  have 1: "releaseTextureImageUnit_layer 1 None ?s = releaseTextureImageUnit 1 ?s"
    by (rule t [THEN conjunct1, THEN mp, OF h])
  have 2: "releaseTextureImageUnit_layer 1 None (run () ?cs TerrainResources_init)
     = releaseTextureImageUnit 1 (run () ?cs TerrainResources_init)"
    by (rule t [THEN conjunct2, THEN conjunct2, THEN conjunct1])
  show ?thesis by (intro conjI; fact)
qed

subsection \<open>Releasing what is not reserved\<close>

lemma update_same_entry:
  "Mapping.lookup m k = Some v \<Longrightarrow> Mapping.update k v m = m"
  by (rule mapping_eqI) (auto simp add: lookup_update')

lemma releaseTextureImageUnit_layer_Some:
  "releaseTextureImageUnit_layer u (Some l) s =
     (case Mapping.lookup (perLayerReservedUnits s) (Some l) of
        None \<Rightarrow> s
      | Some units \<Rightarrow>
          (if units - {u} = {}
           then s\<lparr>perLayerReservedUnits := Mapping.delete (Some l) (perLayerReservedUnits s)\<rparr>
           else s\<lparr>perLayerReservedUnits :=
                    Mapping.update (Some l) (units - {u}) (perLayerReservedUnits s)\<rparr>))"
  by (simp add: releaseTextureImageUnit_layer_def)

lemma release_layer_unreserved_noop:
  assumes "u \<notin> perLayerUnits s (Some l)"
    and "Mapping.lookup (perLayerReservedUnits s) (Some l) \<noteq> Some {}"
  shows "releaseTextureImageUnit_layer u (Some l) s = s"
proof (cases "Mapping.lookup (perLayerReservedUnits s) (Some l)")
  case None
  then show ?thesis by (simp add: releaseTextureImageUnit_layer_Some)
next
  case (Some units)
  with assms have "u \<notin> units" and "units \<noteq> {}"
    by (simp_all add: perLayerUnits_def Mapping.lookup_default_def)
  then have "units - {u} = units" and "units - {u} \<noteq> {}" by auto
  with Some show ?thesis
    by (simp add: releaseTextureImageUnit_layer_Some update_same_entry)
qed

lemma release_layer_empty_entry:
  assumes "Mapping.lookup (perLayerReservedUnits s) (Some l) = Some {}"
  shows "releaseTextureImageUnit_layer u (Some l) s
           = s\<lparr>perLayerReservedUnits := Mapping.delete (Some l) (perLayerReservedUnits s)\<rparr>"
  using assms by (simp add: releaseTextureImageUnit_layer_Some)

lemma release_layer_unreserved_units:
  assumes "u \<notin> perLayerUnits s (Some l)"
  shows "globallyReservedUnits (releaseTextureImageUnit_layer u (Some l) s)
           = globallyReservedUnits s"
    and "perLayerUnits (releaseTextureImageUnit_layer u (Some l) s) layer = perLayerUnits s layer"
proof -
  show "globallyReservedUnits (releaseTextureImageUnit_layer u (Some l) s)
           = globallyReservedUnits s"
    by (simp add: globallyReservedUnits_release_layer)
  show "perLayerUnits (releaseTextureImageUnit_layer u (Some l) s) layer = perLayerUnits s layer"
  proof (cases "Mapping.lookup (perLayerReservedUnits s) (Some l) = Some {}")
    case True
    then show ?thesis
      by (cases "layer = Some l")
        (simp_all add: release_layer_empty_entry perLayerUnits_def Mapping.lookup_default_def)
  next
    case False
    with assms show ?thesis by (simp add: release_layer_unreserved_noop)
  qed
qed

lemma release_layer_twice:
  "releaseTextureImageUnit_layer u layer (releaseTextureImageUnit_layer u layer s)
     = releaseTextureImageUnit_layer u layer s"
  by (cases layer)
    (auto simp: releaseTextureImageUnit_layer_def releaseTextureImageUnit_def Let_def
      update_update(1) split: option.splits)

text \<open>
  C7, as the code has it. Releasing a unit that is not reserved in the given scope takes no
  reservation away. The global release of a unit that is not in
  \<^verbatim>\<open>_globallyReservedUnits\<close> leaves the allocator unchanged. The layer-bound release,
  for a non-null layer, of a unit that the layer does not hold leaves
  \<^verbatim>\<open>_globallyReservedUnits\<close> and the units of every layer unchanged; the allocator itself
  is unchanged unless the layer is mapped to an empty set, and then the layer's entry is
  erased from \<^verbatim>\<open>_perLayerReservedUnits\<close>. Applying the same release twice is the same as
  applying it once, for both releases and every allocator.
\<close>

theorem release_unreserved:
  "(u \<notin> globallyReservedUnits s \<longrightarrow> releaseTextureImageUnit u s = s) \<and>
   (u \<notin> perLayerUnits s (Some l) \<and>
    Mapping.lookup (perLayerReservedUnits s) (Some l) \<noteq> Some {} \<longrightarrow>
      releaseTextureImageUnit_layer u (Some l) s = s) \<and>
   (Mapping.lookup (perLayerReservedUnits s) (Some l) = Some {} \<longrightarrow>
      releaseTextureImageUnit_layer u (Some l) s
        = s\<lparr>perLayerReservedUnits := Mapping.delete (Some l) (perLayerReservedUnits s)\<rparr>) \<and>
   (u \<notin> perLayerUnits s (Some l) \<longrightarrow>
      globallyReservedUnits (releaseTextureImageUnit_layer u (Some l) s)
        = globallyReservedUnits s \<and>
      (\<forall>layer. perLayerUnits (releaseTextureImageUnit_layer u (Some l) s) layer
                 = perLayerUnits s layer)) \<and>
   releaseTextureImageUnit u (releaseTextureImageUnit u s) = releaseTextureImageUnit u s \<and>
   releaseTextureImageUnit_layer u layer (releaseTextureImageUnit_layer u layer s)
     = releaseTextureImageUnit_layer u layer s"
proof (intro conjI impI allI)
  assume "u \<notin> globallyReservedUnits s"
  then show "releaseTextureImageUnit u s = s"
    by (simp add: releaseTextureImageUnit_def)
next
  assume "u \<notin> perLayerUnits s (Some l) \<and>
    Mapping.lookup (perLayerReservedUnits s) (Some l) \<noteq> Some {}"
  then show "releaseTextureImageUnit_layer u (Some l) s = s"
    by (simp add: release_layer_unreserved_noop)
next
  assume "Mapping.lookup (perLayerReservedUnits s) (Some l) = Some {}"
  then show "releaseTextureImageUnit_layer u (Some l) s
        = s\<lparr>perLayerReservedUnits := Mapping.delete (Some l) (perLayerReservedUnits s)\<rparr>"
    by (rule release_layer_empty_entry)
next
  assume a: "u \<notin> perLayerUnits s (Some l)"
  show "globallyReservedUnits (releaseTextureImageUnit_layer u (Some l) s)
        = globallyReservedUnits s"
    by (rule release_layer_unreserved_units(1) [OF a])
  show "perLayerUnits (releaseTextureImageUnit_layer u (Some l) s) layer
          = perLayerUnits s layer" for layer
    by (rule release_layer_unreserved_units(2) [OF a])
next
  show "releaseTextureImageUnit u (releaseTextureImageUnit u s) = releaseTextureImageUnit u s"
    by (simp add: releaseTextureImageUnit_def)
  show "releaseTextureImageUnit_layer u layer (releaseTextureImageUnit_layer u layer s)
     = releaseTextureImageUnit_layer u layer s"
    by (rule release_layer_twice)
qed

text \<open>
  Unit 0 reserved globally and unit 1 under layer 7: releasing unit 2, globally or for
  layer 7, changes nothing. With layer 7 mapped to an empty set, releasing unit 0 for
  layer 7 erases the entry of layer 7.
\<close>

theorem release_unreserved_witness:
  "2 \<notin> globallyReservedUnits
         \<lparr>globallyReservedUnits = {0},
          perLayerReservedUnits = Mapping.update (Some (7::nat)) {1} Mapping.empty\<rparr> \<and>
   releaseTextureImageUnit 2
       \<lparr>globallyReservedUnits = {0},
        perLayerReservedUnits = Mapping.update (Some (7::nat)) {1} Mapping.empty\<rparr>
     = \<lparr>globallyReservedUnits = {0},
        perLayerReservedUnits = Mapping.update (Some (7::nat)) {1} Mapping.empty\<rparr> \<and>
   2 \<notin> perLayerUnits
         \<lparr>globallyReservedUnits = {0},
          perLayerReservedUnits = Mapping.update (Some (7::nat)) {1} Mapping.empty\<rparr> (Some 7) \<and>
   Mapping.lookup (perLayerReservedUnits
         \<lparr>globallyReservedUnits = {0},
          perLayerReservedUnits = Mapping.update (Some (7::nat)) {1} Mapping.empty\<rparr>) (Some 7)
     \<noteq> Some {} \<and>
   releaseTextureImageUnit_layer 2 (Some 7)
       \<lparr>globallyReservedUnits = {0},
        perLayerReservedUnits = Mapping.update (Some (7::nat)) {1} Mapping.empty\<rparr>
     = \<lparr>globallyReservedUnits = {0},
        perLayerReservedUnits = Mapping.update (Some (7::nat)) {1} Mapping.empty\<rparr> \<and>
   Mapping.lookup (perLayerReservedUnits
         \<lparr>globallyReservedUnits = {0},
          perLayerReservedUnits = Mapping.update (Some (7::nat)) {} Mapping.empty\<rparr>) (Some 7)
     = Some {} \<and>
   releaseTextureImageUnit_layer 0 (Some 7)
       \<lparr>globallyReservedUnits = {0},
        perLayerReservedUnits = Mapping.update (Some (7::nat)) {} Mapping.empty\<rparr>
     = \<lparr>globallyReservedUnits = {0},
        perLayerReservedUnits = Mapping.update (Some (7::nat)) {} Mapping.empty\<rparr>
       \<lparr>perLayerReservedUnits :=
          Mapping.delete (Some 7) (Mapping.update (Some (7::nat)) {} Mapping.empty)\<rparr>"
proof -
  let ?s = "\<lparr>globallyReservedUnits = {0 :: c_int},
          perLayerReservedUnits = Mapping.update (Some (7::nat)) {1} Mapping.empty\<rparr>"
  let ?e = "\<lparr>globallyReservedUnits = {0 :: c_int},
          perLayerReservedUnits = Mapping.update (Some (7::nat)) {} Mapping.empty\<rparr>"
  have h1: "2 \<notin> globallyReservedUnits ?s" by simp
  have h2: "2 \<notin> perLayerUnits ?s (Some 7)"
    by (simp add: perLayerUnits_def Mapping.lookup_default_def)
  have h3: "Mapping.lookup (perLayerReservedUnits ?s) (Some 7) \<noteq> Some {}" by simp
  have h4: "Mapping.lookup (perLayerReservedUnits ?e) (Some 7) = Some {}" by simp
  note t = release_unreserved [of 2 ?s 7]
  note t' = release_unreserved [of 0 ?e 7]
  have 1: "releaseTextureImageUnit 2 ?s = ?s"
    by (rule t [THEN conjunct1, THEN mp, OF h1])
  have 2: "releaseTextureImageUnit_layer 2 (Some 7) ?s = ?s"
    by (rule t [THEN conjunct2, THEN conjunct1, THEN mp, OF conjI [OF h2 h3]])
  have 3: "releaseTextureImageUnit_layer 0 (Some 7) ?e
     = ?e\<lparr>perLayerReservedUnits :=
            Mapping.delete (Some 7) (Mapping.update (Some (7::nat)) {} Mapping.empty)\<rparr>"
    using t' [THEN conjunct2, THEN conjunct2, THEN conjunct1, THEN mp, OF h4] by simp
  show ?thesis by (intro conjI; fact)
qed

text \<open>
  C7 as stated fails where a layer is mapped to an empty set. With one unit, a global
  reserve followed by a layer-bound reserve for layer 7 (which finds the only unit taken and
  fails) leaves unit 0 in \<^verbatim>\<open>_globallyReservedUnits\<close> and layer 7 mapped to an empty set.
  Unit 0 is not among the units of layer 7, yet releasing it for layer 7 changes the
  allocator: afterwards layer 7 has no entry.
\<close>

theorem release_unreserved_counterexample:
  "run () [Reserve 1 None, ReserveLayer 1 (Some (7::nat)) None] TerrainResources_init
     = \<lparr>globallyReservedUnits = {0},
        perLayerReservedUnits = Mapping.update (Some 7) {} Mapping.empty\<rparr> \<and>
   0 \<notin> perLayerUnits
         \<lparr>globallyReservedUnits = {0},
          perLayerReservedUnits = Mapping.update (Some (7::nat)) {} Mapping.empty\<rparr> (Some 7) \<and>
   releaseTextureImageUnit_layer 0 (Some 7)
       \<lparr>globallyReservedUnits = {0},
        perLayerReservedUnits = Mapping.update (Some (7::nat)) {} Mapping.empty\<rparr>
     \<noteq> \<lparr>globallyReservedUnits = {0},
         perLayerReservedUnits = Mapping.update (Some (7::nat)) {} Mapping.empty\<rparr> \<and>
   Mapping.lookup (perLayerReservedUnits (releaseTextureImageUnit_layer 0 (Some 7)
       \<lparr>globallyReservedUnits = {0},
        perLayerReservedUnits = Mapping.update (Some (7::nat)) {} Mapping.empty\<rparr>)) (Some 7)
     = None"
proof -
  let ?e = "\<lparr>globallyReservedUnits = {0 :: c_int},
          perLayerReservedUnits = Mapping.update (Some (7::nat)) {} Mapping.empty\<rparr>"
  have 1: "run () [Reserve 1 None, ReserveLayer 1 (Some (7::nat)) None] TerrainResources_init = ?e"
    by (simp add: eval_simps)
  have 2: "0 \<notin> perLayerUnits ?e (Some 7)"
    by (simp add: perLayerUnits_def Mapping.lookup_default_def)
  have 4: "Mapping.lookup (perLayerReservedUnits (releaseTextureImageUnit_layer 0 (Some 7) ?e))
             (Some 7) = None"
    by (simp add: releaseTextureImageUnit_layer_def)
  have 3: "releaseTextureImageUnit_layer 0 (Some 7) ?e \<noteq> ?e"
  proof
    assume "releaseTextureImageUnit_layer 0 (Some 7) ?e = ?e"
    with 4 have "Mapping.lookup (perLayerReservedUnits ?e) (Some 7) = None" by simp
    then show False by simp
  qed
  show ?thesis by (intro conjI; fact)
qed

subsection \<open>Raw and handle forms\<close>

lemma handle_global_agrees:
  "fst (reserveTextureImageUnit_res this m r rq s) = fst (reserveTextureImageUnit m rq s) \<and>
   r_unit (fst (snd (reserveTextureImageUnit_res this m r rq s)))
     = fst (snd (reserveTextureImageUnit m rq s)) \<and>
   fst (snd (snd (reserveTextureImageUnit_res this m r rq s)))
     = fst (snd (snd (reserveTextureImageUnit m rq s)))"
  by (simp add: reserveTextureImageUnit_res_def reserveTextureImageUnit_def split: option.splits)

lemma handle_layer_agrees:
  "fst (reserveTextureImageUnitForLayer this m r (Some l) rq s)
     = fst (reserveTextureImageUnit_layer m (Some l) rq s) \<and>
   r_unit (fst (snd (reserveTextureImageUnitForLayer this m r (Some l) rq s)))
     = fst (snd (reserveTextureImageUnit_layer m (Some l) rq s)) \<and>
   fst (snd (snd (reserveTextureImageUnitForLayer this m r (Some l) rq s)))
     = fst (snd (snd (reserveTextureImageUnit_layer m (Some l) rq s)))"
  by (simp add: reserveTextureImageUnitForLayer_def reserveTextureImageUnit_layer_def Let_def
      split: option.splits)

text \<open>
  C8. Called with a null layer, the handle layer-bound reserve logs the warning and returns
  false; the reservation and the allocator are as before. The raw layer-bound reserve with a
  null layer is the raw global reserve, so it succeeds whenever an index below
  \<open>maxUnits\<close> is free, where the handle form fails. Everywhere else the raw and the
  handle form of the same scope agree: they return the same \<^verbatim>\<open>bool\<close>, the same unit
  (\<open>-1\<close> on failure) and leave the same allocator, for the two global forms and for the
  two layer-bound forms with a non-null layer.
\<close>

theorem null_layer_asymmetry:
  "reserveTextureImageUnitForLayer this maxUnits r None rq (s :: 'l TerrainResources)
     = (False, r, s, [IllegalUsage]) \<and>
   severity_of (IllegalUsage :: 'l log_msg) = WARN \<and>
   reserveTextureImageUnit_layer maxUnits None rq s = reserveTextureImageUnit maxUnits rq s \<and>
   (\<not> (\<forall>i. i < maxUnits \<longrightarrow>
          i \<in> globallyReservedUnits s \<union> (\<Union>layer. perLayerUnits s layer)) \<longrightarrow>
      fst (reserveTextureImageUnit_layer maxUnits None rq s) \<and>
      \<not> fst (reserveTextureImageUnitForLayer this maxUnits r None rq s)) \<and>
   (fst (reserveTextureImageUnit_res this maxUnits r rq s)
      = fst (reserveTextureImageUnit maxUnits rq s) \<and>
    r_unit (fst (snd (reserveTextureImageUnit_res this maxUnits r rq s)))
      = fst (snd (reserveTextureImageUnit maxUnits rq s)) \<and>
    fst (snd (snd (reserveTextureImageUnit_res this maxUnits r rq s)))
      = fst (snd (snd (reserveTextureImageUnit maxUnits rq s)))) \<and>
   (fst (reserveTextureImageUnitForLayer this maxUnits r (Some l) rq s)
      = fst (reserveTextureImageUnit_layer maxUnits (Some l) rq s) \<and>
    r_unit (fst (snd (reserveTextureImageUnitForLayer this maxUnits r (Some l) rq s)))
      = fst (snd (reserveTextureImageUnit_layer maxUnits (Some l) rq s)) \<and>
    fst (snd (snd (reserveTextureImageUnitForLayer this maxUnits r (Some l) rq s)))
      = fst (snd (snd (reserveTextureImageUnit_layer maxUnits (Some l) rq s))))"
proof -
  have a: "reserveTextureImageUnitForLayer this maxUnits r None rq s
     = (False, r, s, [IllegalUsage])"
    by (simp add: reserveTextureImageUnitForLayer_def)
  have b: "severity_of (IllegalUsage :: 'l log_msg) = WARN" by simp
  have c: "reserveTextureImageUnit_layer maxUnits None rq s = reserveTextureImageUnit maxUnits rq s"
    by (simp add: reserveTextureImageUnit_layer_def)
  have d: "\<not> (\<forall>i. i < maxUnits \<longrightarrow>
          i \<in> globallyReservedUnits s \<union> (\<Union>layer. perLayerUnits s layer)) \<longrightarrow>
      fst (reserveTextureImageUnit_layer maxUnits None rq s) \<and>
      \<not> fst (reserveTextureImageUnitForLayer this maxUnits r None rq s)"
  proof
    assume n: "\<not> (\<forall>i. i < maxUnits \<longrightarrow>
          i \<in> globallyReservedUnits s \<union> (\<Union>layer. perLayerUnits s layer))"
    note e = scan_outcome [OF reserveTextureImageUnit_returns, of maxUnits rq s,
        unfolded fst_conv snd_conv, THEN conjunct1]
    have "fst (reserveTextureImageUnit maxUnits rq s)"
    proof (rule ccontr)
      assume "\<not> fst (reserveTextureImageUnit maxUnits rq s)"
      then have "\<forall>i. i < maxUnits \<longrightarrow>
          i \<in> globallyReservedUnits s \<union> (\<Union>layer. perLayerUnits s layer)"
        by (rule e [THEN iffD1])
      with n show False by (rule notE)
    qed
    then show "fst (reserveTextureImageUnit_layer maxUnits None rq s) \<and>
      \<not> fst (reserveTextureImageUnitForLayer this maxUnits r None rq s)"
      by (simp add: a c)
  qed
  show ?thesis
    by (rule conjI [OF a conjI [OF b conjI [OF c conjI [OF d
          conjI [OF handle_global_agrees handle_layer_agrees]]]]])
qed

text \<open>
  A new allocator with four units, where index 0 is free: with a null layer the raw form
  reserves unit 0 globally, the handle form returns false and leaves the reservation as it
  was constructed.
\<close>

theorem null_layer_asymmetry_witness:
  "\<not> (\<forall>i. i < (4 :: c_unsigned) \<longrightarrow>
          i \<in> globallyReservedUnits (TerrainResources_init :: nat TerrainResources) \<union>
              (\<Union>layer. perLayerUnits (TerrainResources_init :: nat TerrainResources) layer)) \<and>
   fst (reserveTextureImageUnit_layer 4 None None (TerrainResources_init :: nat TerrainResources)) \<and>
   \<not> fst (reserveTextureImageUnitForLayer () 4 TextureImageUnitReservation_init None None
           (TerrainResources_init :: nat TerrainResources)) \<and>
   reserveTextureImageUnitForLayer () 4 TextureImageUnitReservation_init None None
       (TerrainResources_init :: nat TerrainResources)
     = (False, TextureImageUnitReservation_init, TerrainResources_init, [IllegalUsage])"
proof -
  let ?i = "TerrainResources_init :: nat TerrainResources"
  let ?r = "TextureImageUnitReservation_init :: (nat, unit) TextureImageUnitReservation"
  have "(0 :: c_unsigned) < 4 \<and>
      0 \<notin> globallyReservedUnits ?i \<union> (\<Union>layer. perLayerUnits ?i layer)"
    by (simp add: TerrainResources_init_def perLayerUnits_def Mapping.lookup_default_def)
  then have h: "\<not> (\<forall>i. i < (4 :: c_unsigned) \<longrightarrow>
          i \<in> globallyReservedUnits ?i \<union> (\<Union>layer. perLayerUnits ?i layer))"
    by blast
  note t = null_layer_asymmetry [of "()" 4 ?r None ?i]
  note c = t [THEN conjunct2, THEN conjunct2, THEN conjunct2, THEN conjunct1, THEN mp, OF h]
  have 1: "fst (reserveTextureImageUnit_layer 4 None None ?i)"
    by (rule c [THEN conjunct1])
  have 2: "\<not> fst (reserveTextureImageUnitForLayer () 4 ?r None None ?i)"
    by (rule c [THEN conjunct2])
  have 3: "reserveTextureImageUnitForLayer () 4 ?r None None ?i
     = (False, ?r, ?i, [IllegalUsage])"
    by (rule t [THEN conjunct1])
  show ?thesis by (intro conjI; fact)
qed

subsection \<open>The entry that a layer-bound reserve creates\<close>

lemma keys_reserve:
  "Mapping.keys (perLayerReservedUnits s)
     \<subseteq> Mapping.keys (perLayerReservedUnits (fst (snd (snd (reserveTextureImageUnit m rq s)))))"
  "Mapping.keys (perLayerReservedUnits s)
     \<subseteq> Mapping.keys
         (perLayerReservedUnits (fst (snd (snd (reserveTextureImageUnit_layer m layer rq s)))))"
  "Mapping.keys (perLayerReservedUnits s)
     \<subseteq> Mapping.keys
         (perLayerReservedUnits (fst (snd (snd (reserveTextureImageUnit_res this m r rq s)))))"
  "Mapping.keys (perLayerReservedUnits s)
     \<subseteq> Mapping.keys
         (perLayerReservedUnits
            (fst (snd (snd (reserveTextureImageUnitForLayer this m r layer rq s)))))"
  by (auto simp: reserveTextureImageUnit_def reserveTextureImageUnit_layer_def
      reserveTextureImageUnit_res_def reserveTextureImageUnitForLayer_def Let_def
      split: option.splits)

lemma keys_release_layer_other:
  assumes "layer \<noteq> Some l" and "Some l \<in> Mapping.keys (perLayerReservedUnits s)"
  shows "Some l \<in> Mapping.keys (perLayerReservedUnits (releaseTextureImageUnit_layer v layer s))"
  using assms
  by (cases layer)
    (auto simp: releaseTextureImageUnit_layer_def releaseTextureImageUnit_def Let_def
      split: option.splits)

lemma exec_keeps_key:
  assumes "Some l \<in> Mapping.keys (perLayerReservedUnits s)" and "\<not> releases_layer this l c"
  shows "Some l \<in> Mapping.keys (perLayerReservedUnits (exec this c s))"
proof (cases c)
  case (Reserve m rq)
  with assms(1) keys_reserve(1) [of s m rq] show ?thesis by auto
next
  case (ReserveLayer m layer rq)
  with assms(1) keys_reserve(2) [of s m layer rq] show ?thesis by auto
next
  case (ReserveRes m r rq)
  with assms(1) keys_reserve(3) [of s this m r rq] show ?thesis by auto
next
  case (ReserveResForLayer m r layer rq)
  with assms(1) keys_reserve(4) [of s this m r layer rq] show ?thesis by auto
next
  case (Release v)
  with assms(1) show ?thesis by (simp add: releaseTextureImageUnit_def)
next
  case (ReleaseLayer v layer)
  with assms show ?thesis by (simp add: keys_release_layer_other)
next
  case (SetOffLimits v)
  with assms(1) show ?thesis by (simp add: setTextureImageUnitOffLimits_eq)
next
  case (DropReservation r)
  with assms show ?thesis
    by (auto simp: TextureImageUnitReservation_dtor_def keys_release_layer_other)
qed

lemma run_keeps_key:
  "Some l \<in> Mapping.keys (perLayerReservedUnits s)
     \<Longrightarrow> \<forall>c \<in> set cs. \<not> releases_layer this l c
     \<Longrightarrow> Some l \<in> Mapping.keys (perLayerReservedUnits (run this cs s))"
proof (induction cs arbitrary: s)
  case Nil
  then show ?case by simp
next
  case (Cons c cs)
  from Cons.prems have "Some l \<in> Mapping.keys (perLayerReservedUnits (exec this c s))"
    by (simp add: exec_keeps_key)
  with Cons.IH [of "exec this c s"] Cons.prems(2) show ?case by simp
qed

lemma layer_reserve_makes_key:
  "Some l \<in> Mapping.keys
      (perLayerReservedUnits (fst (snd (snd (reserveTextureImageUnit_layer m (Some l) rq s)))))"
  "Some l \<in> Mapping.keys
      (perLayerReservedUnits
         (fst (snd (snd (reserveTextureImageUnitForLayer this m r (Some l) rq s)))))"
  by (auto simp: reserveTextureImageUnit_layer_def reserveTextureImageUnitForLayer_def Let_def
      split: option.splits)

lemma failed_layer_reserve_state:
  "\<not> fst (reserveTextureImageUnit_layer m (Some l) rq s) \<Longrightarrow>
     Some l \<notin> Mapping.keys (perLayerReservedUnits s) \<Longrightarrow>
     fst (snd (snd (reserveTextureImageUnit_layer m (Some l) rq s)))
       = s\<lparr>perLayerReservedUnits := Mapping.update (Some l) {} (perLayerReservedUnits s)\<rparr>"
  "\<not> fst (reserveTextureImageUnitForLayer this m r (Some l) rq s) \<Longrightarrow>
     Some l \<notin> Mapping.keys (perLayerReservedUnits s) \<Longrightarrow>
     fst (snd (snd (reserveTextureImageUnitForLayer this m r (Some l) rq s)))
       = s\<lparr>perLayerReservedUnits := Mapping.update (Some l) {} (perLayerReservedUnits s)\<rparr>"
  by (auto simp: reserveTextureImageUnit_layer_def reserveTextureImageUnitForLayer_def Let_def
      Mapping.default_def split: option.splits)

lemma update_new_key_differs:
  assumes "k \<notin> Mapping.keys (perLayerReservedUnits s)"
  shows "s\<lparr>perLayerReservedUnits := Mapping.update k v (perLayerReservedUnits s)\<rparr> \<noteq> s"
proof
  assume "s\<lparr>perLayerReservedUnits := Mapping.update k v (perLayerReservedUnits s)\<rparr> = s"
  then have "perLayerReservedUnits
      (s\<lparr>perLayerReservedUnits := Mapping.update k v (perLayerReservedUnits s)\<rparr>)
    = perLayerReservedUnits s"
    by simp
  then have "Mapping.update k v (perLayerReservedUnits s) = perLayerReservedUnits s" by simp
  then have "Mapping.keys (Mapping.update k v (perLayerReservedUnits s))
    = Mapping.keys (perLayerReservedUnits s)"
    by simp
  with assms show False by auto
qed

text \<open>
  C9. A layer-bound reserve with a non-null layer, in the raw and in the handle form, leaves
  the layer a key of \<^verbatim>\<open>_perLayerReservedUnits\<close> whether it succeeds or not. When it fails
  for a layer that had no entry, the allocator afterwards is not the one before: it is the
  one before with the layer mapped to an empty set. Once a layer is a key it stays a key
  through every sequence of calls none of which runs the layer-bound release for that layer;
  and the layer-bound release of any unit for a layer that is mapped to an empty set erases
  the entry.
\<close>

theorem failed_layer_reserve_leaves_entry:
  "Some l \<in> Mapping.keys
      (perLayerReservedUnits (fst (snd (snd (reserveTextureImageUnit_layer m (Some l) rq s))))) \<and>
   Some l \<in> Mapping.keys
      (perLayerReservedUnits
         (fst (snd (snd (reserveTextureImageUnitForLayer this m r (Some l) rq s))))) \<and>
   (\<not> fst (reserveTextureImageUnit_layer m (Some l) rq s) \<and>
    Some l \<notin> Mapping.keys (perLayerReservedUnits s) \<longrightarrow>
      fst (snd (snd (reserveTextureImageUnit_layer m (Some l) rq s)))
        = s\<lparr>perLayerReservedUnits := Mapping.update (Some l) {} (perLayerReservedUnits s)\<rparr> \<and>
      fst (snd (snd (reserveTextureImageUnit_layer m (Some l) rq s))) \<noteq> s) \<and>
   (\<not> fst (reserveTextureImageUnitForLayer this m r (Some l) rq s) \<and>
    Some l \<notin> Mapping.keys (perLayerReservedUnits s) \<longrightarrow>
      fst (snd (snd (reserveTextureImageUnitForLayer this m r (Some l) rq s)))
        = s\<lparr>perLayerReservedUnits := Mapping.update (Some l) {} (perLayerReservedUnits s)\<rparr> \<and>
      fst (snd (snd (reserveTextureImageUnitForLayer this m r (Some l) rq s))) \<noteq> s) \<and>
   (Some l \<in> Mapping.keys (perLayerReservedUnits s) \<and>
    (\<forall>c \<in> set calls. \<not> releases_layer this l c) \<longrightarrow>
      Some l \<in> Mapping.keys (perLayerReservedUnits (run this calls s))) \<and>
   (Mapping.lookup (perLayerReservedUnits s) (Some l) = Some {} \<longrightarrow>
      Some l \<notin> Mapping.keys
        (perLayerReservedUnits (releaseTextureImageUnit_layer u (Some l) s)))"
proof (intro conjI impI)
  show "Some l \<in> Mapping.keys
      (perLayerReservedUnits (fst (snd (snd (reserveTextureImageUnit_layer m (Some l) rq s)))))"
    by (rule layer_reserve_makes_key(1))
  show "Some l \<in> Mapping.keys
      (perLayerReservedUnits
         (fst (snd (snd (reserveTextureImageUnitForLayer this m r (Some l) rq s)))))"
    by (rule layer_reserve_makes_key(2))
next
  assume a: "\<not> fst (reserveTextureImageUnit_layer m (Some l) rq s) \<and>
    Some l \<notin> Mapping.keys (perLayerReservedUnits s)"
  then show e: "fst (snd (snd (reserveTextureImageUnit_layer m (Some l) rq s)))
        = s\<lparr>perLayerReservedUnits := Mapping.update (Some l) {} (perLayerReservedUnits s)\<rparr>"
    by (simp add: failed_layer_reserve_state(1))
  from a show "fst (snd (snd (reserveTextureImageUnit_layer m (Some l) rq s))) \<noteq> s"
    unfolding e by (simp add: update_new_key_differs)
next
  assume a: "\<not> fst (reserveTextureImageUnitForLayer this m r (Some l) rq s) \<and>
    Some l \<notin> Mapping.keys (perLayerReservedUnits s)"
  then show e: "fst (snd (snd (reserveTextureImageUnitForLayer this m r (Some l) rq s)))
        = s\<lparr>perLayerReservedUnits := Mapping.update (Some l) {} (perLayerReservedUnits s)\<rparr>"
    by (simp add: failed_layer_reserve_state(2))
  from a show "fst (snd (snd (reserveTextureImageUnitForLayer this m r (Some l) rq s))) \<noteq> s"
    unfolding e by (simp add: update_new_key_differs)
next
  assume "Some l \<in> Mapping.keys (perLayerReservedUnits s) \<and>
    (\<forall>c \<in> set calls. \<not> releases_layer this l c)"
  then show "Some l \<in> Mapping.keys (perLayerReservedUnits (run this calls s))"
    by (simp add: run_keeps_key)
next
  assume "Mapping.lookup (perLayerReservedUnits s) (Some l) = Some {}"
  then show "Some l \<notin> Mapping.keys
        (perLayerReservedUnits (releaseTextureImageUnit_layer u (Some l) s))"
    by (simp add: release_layer_empty_entry)
qed

text \<open>
  With one unit, reserved globally, the reserve for layer 7 fails and leaves layer 7 mapped
  to an empty set; the entry is still there after a global release and a global reserve,
  and the release of unit 0 for layer 7 erases it.
\<close>

theorem failed_layer_reserve_leaves_entry_witness:
  "\<not> fst (reserveTextureImageUnit_layer 1 (Some (7::nat)) None
           \<lparr>globallyReservedUnits = {0}, perLayerReservedUnits = Mapping.empty\<rparr>) \<and>
   Some 7 \<notin> Mapping.keys (perLayerReservedUnits
           \<lparr>globallyReservedUnits = {0},
            perLayerReservedUnits = (Mapping.empty :: nat PerLayerReservedUnits)\<rparr>) \<and>
   fst (snd (snd (reserveTextureImageUnit_layer 1 (Some (7::nat)) None
           \<lparr>globallyReservedUnits = {0}, perLayerReservedUnits = Mapping.empty\<rparr>)))
     = \<lparr>globallyReservedUnits = {0},
        perLayerReservedUnits = Mapping.update (Some 7) {} Mapping.empty\<rparr> \<and>
   \<not> releases_layer () (7::nat) (Release 0 :: (nat, unit) call) \<and>
   \<not> releases_layer () (7::nat) (Reserve 1 None :: (nat, unit) call) \<and>
   Some 7 \<in> Mapping.keys (perLayerReservedUnits
       (run () [Release 0, Reserve 1 None]
          \<lparr>globallyReservedUnits = {0},
           perLayerReservedUnits = Mapping.update (Some (7::nat)) {} Mapping.empty\<rparr>)) \<and>
   Some 7 \<notin> Mapping.keys (perLayerReservedUnits
       (releaseTextureImageUnit_layer 0 (Some 7)
          \<lparr>globallyReservedUnits = {0},
           perLayerReservedUnits = Mapping.update (Some (7::nat)) {} Mapping.empty\<rparr>))"
proof -
  let ?s = "\<lparr>globallyReservedUnits = {0 :: c_int},
            perLayerReservedUnits = (Mapping.empty :: nat PerLayerReservedUnits)\<rparr>"
  let ?e = "\<lparr>globallyReservedUnits = {0 :: c_int},
           perLayerReservedUnits = Mapping.update (Some (7::nat)) {} Mapping.empty\<rparr>"
  let ?cs = "[Release 0, Reserve 1 None] :: (nat, unit) call list"
  have h1: "\<not> fst (reserveTextureImageUnit_layer 1 (Some (7::nat)) None ?s)"
    by (simp add: eval_simps)
  have h2: "Some 7 \<notin> Mapping.keys (perLayerReservedUnits ?s)" by simp
  have h3: "Some 7 \<in> Mapping.keys (perLayerReservedUnits ?e)" by simp
  have h4: "\<forall>c \<in> set ?cs. \<not> releases_layer () (7::nat) c" by simp
  have h5: "Mapping.lookup (perLayerReservedUnits ?e) (Some 7) = Some {}" by simp
  have h6: "\<not> releases_layer () (7::nat) (Release 0 :: (nat, unit) call)"
    and h7: "\<not> releases_layer () (7::nat) (Reserve 1 None :: (nat, unit) call)"
    by simp_all
  note t = failed_layer_reserve_leaves_entry [of 7 1 None ?s "()" undefined ?cs 0]
  note t' = failed_layer_reserve_leaves_entry [of 7 1 None ?e "()" undefined ?cs 0]
  have 1: "fst (snd (snd (reserveTextureImageUnit_layer 1 (Some (7::nat)) None ?s))) = ?e"
    using t [THEN conjunct2, THEN conjunct2, THEN conjunct1, THEN mp, OF conjI [OF h1 h2],
        THEN conjunct1]
    by simp
  have 2: "Some 7 \<in> Mapping.keys (perLayerReservedUnits (run () ?cs ?e))"
    by (rule t' [THEN conjunct2, THEN conjunct2, THEN conjunct2, THEN conjunct2,
          THEN conjunct1, THEN mp, OF conjI [OF h3 h4]])
  have 3: "Some 7 \<notin> Mapping.keys
      (perLayerReservedUnits (releaseTextureImageUnit_layer 0 (Some 7) ?e))"
    by (rule t' [THEN conjunct2, THEN conjunct2, THEN conjunct2, THEN conjunct2,
          THEN conjunct2, THEN mp, OF h5])
  show ?thesis by (intro conjI; fact)
qed

end
